theory Spec2Isabelle
  imports Main "HOL-Library.AList"
begin

section \<open>Python text primitives\<close>

text \<open>
  A Python \<^verbatim>\<open>str\<close> is a sequence of Unicode code points.  HOL's \<open>char\<close> is a byte, so a
  text is modelled as a list of code points (natural numbers); \<open>ascii\<close> turns a HOL string
  literal into such a text.
\<close>

type_synonym pystr = "nat list"

definition ascii :: "string \<Rightarrow> pystr" where
  "ascii s = map of_char s"

text \<open>
  \<^verbatim>\<open>str.isspace\<close> on one code point: the characters that \<^verbatim>\<open>str.strip()\<close> removes
  (U+0009..U+000D, U+001C..U+0020, U+0085, U+00A0, U+1680, U+2000..U+200A, U+2028, U+2029,
  U+202F, U+205F, U+3000).
\<close>

definition isspace :: "nat \<Rightarrow> bool" where
  "isspace c \<longleftrightarrow>
     (9 \<le> c \<and> c \<le> 13) \<or> (28 \<le> c \<and> c \<le> 32) \<or> c = 133 \<or> c = 160 \<or> c = 5760 \<or>
     (8192 \<le> c \<and> c \<le> 8202) \<or> c = 8232 \<or> c = 8233 \<or> c = 8239 \<or> c = 8287 \<or> c = 12288"

text \<open>
  The line boundaries of \<^verbatim>\<open>str.splitlines\<close>: LF, VT, FF, CR, FS, GS, RS, NEL, LS and PS
  (CR LF counts as one boundary).
\<close>

definition is_linebreak :: "nat \<Rightarrow> bool" where
  "is_linebreak c \<longleftrightarrow>
     (10 \<le> c \<and> c \<le> 13) \<or> (28 \<le> c \<and> c \<le> 30) \<or> c = 133 \<or> c = 8232 \<or> c = 8233"

text \<open>\<^verbatim>\<open>s.strip()\<close>: drop the leading and the trailing whitespace.\<close>

definition lstrip :: "pystr \<Rightarrow> pystr" where
  "lstrip s = dropWhile isspace s"

definition rstrip :: "pystr \<Rightarrow> pystr" where
  "rstrip s = rev (dropWhile isspace (rev s))"

definition strip :: "pystr \<Rightarrow> pystr" where
  "strip s = rstrip (lstrip s)"

text \<open>
  \<^verbatim>\<open>s.splitlines()\<close>: the lines of \<open>s\<close> without their line breaks.  The empty text has no
  line, and a final line break opens no further line.
\<close>

fun splitlines :: "pystr \<Rightarrow> pystr list" where
  "splitlines [] = []"
| "splitlines (c # cs) =
     (if is_linebreak c then
        (case cs of
           d # ds \<Rightarrow> if c = 13 \<and> d = 10 then [] # splitlines ds else [] # splitlines cs
         | [] \<Rightarrow> [[]])
      else
        (case splitlines cs of
           [] \<Rightarrow> [[c]]
         | l # ls \<Rightarrow> (c # l) # ls))"

text \<open>\<^verbatim>\<open>"\n".join(lines)\<close>\<close>

fun join_lines :: "pystr list \<Rightarrow> pystr" where
  "join_lines [] = []"
| "join_lines [l] = l"
| "join_lines (l # ls) = l @ 10 # join_lines ls"

section \<open>Output Normalizer\<close>

text \<open>
  \<^verbatim>\<open>
  def normalize_output(text: str) -> list[str]:
      lines = text.strip().splitlines()
      return [line.strip() for line in lines if line.strip()]
  \<close>
\<close>

definition normalize_output :: "pystr \<Rightarrow> pystr list" where
  "normalize_output text =
     (let lines = splitlines (strip text)
      in map strip (filter (\<lambda>line. strip line \<noteq> []) lines))"

text \<open>
  The normalizer as the specification words it: split the text itself on line
  boundaries, strip every line, drop the lines that have become empty, keep the order.
\<close>

definition spec_normalize :: "pystr \<Rightarrow> pystr list" where
  "spec_normalize text = filter (\<lambda>line. line \<noteq> []) (map strip (splitlines text))"


section \<open>Paths and the file system\<close>

text \<open>
  The file system is an association list from path texts to nodes; the order of the list is
  the (platform-dependent) order in which \<^verbatim>\<open>os.listdir\<close> reports entries.  Paths are
  the texts the program builds with \<^verbatim>\<open>os.path.join\<close> from its four root constants and
  from names that \<^verbatim>\<open>os.listdir\<close> returned; two different texts are two different
  paths.  File contents are texts already decoded.
\<close>

datatype node = File pystr | Dir

type_synonym filesystem = "(pystr \<times> node) list"

definition TASKS_DIR :: pystr where "TASKS_DIR = ascii ''./tasks/subjects''"
definition SOLUTIONS_DIR :: pystr where "SOLUTIONS_DIR = ascii ''./solutions''"
definition BUILD_DIR :: pystr where "BUILD_DIR = ascii ''./build''"
definition TRACE_DIR :: pystr where "TRACE_DIR = ascii ''./traces''"

text \<open>\<^verbatim>\<open>os.path.join(a, b)\<close> (POSIX); 47 is the slash.\<close>

definition path_join :: "pystr \<Rightarrow> pystr \<Rightarrow> pystr" where
  "path_join a b =
     (if b \<noteq> [] \<and> hd b = 47 then b
      else if a = [] \<or> last a = 47 then a @ b
      else a @ 47 # b)"

definition path_exists :: "filesystem \<Rightarrow> pystr \<Rightarrow> bool" where
  "path_exists fs p \<longleftrightarrow> map_of fs p \<noteq> None"

definition isfile :: "filesystem \<Rightarrow> pystr \<Rightarrow> bool" where
  "isfile fs p = (case map_of fs p of Some (File content) \<Rightarrow> True | _ \<Rightarrow> False)"

definition isdir :: "filesystem \<Rightarrow> pystr \<Rightarrow> bool" where
  "isdir fs p \<longleftrightarrow> map_of fs p = Some Dir"

text \<open>The name under which path \<open>p\<close> is an entry of directory \<open>d\<close>, if it is one.\<close>

definition child_name :: "pystr \<Rightarrow> pystr \<Rightarrow> pystr option" where
  "child_name d p =
     (let n = drop (length d + (if d = [] \<or> last d = 47 then 0 else 1)) p
      in if n \<noteq> [] \<and> 47 \<notin> set n \<and> path_join d n = p then Some n else None)"

text \<open>\<^verbatim>\<open>os.listdir(d)\<close> for a directory \<open>d\<close>.\<close>

definition listdir :: "filesystem \<Rightarrow> pystr \<Rightarrow> pystr list" where
  "listdir fs d = remdups (List.map_filter (child_name d) (map fst fs))"

text \<open>\<^verbatim>\<open>s.endswith(suffix)\<close>\<close>

definition endswith :: "pystr \<Rightarrow> pystr \<Rightarrow> bool" where
  "endswith s suffix \<longleftrightarrow>
     length suffix \<le> length s \<and> drop (length s - length suffix) s = suffix"

text \<open>\<^verbatim>\<open>random.choice(xs)\<close> on a non-empty list, for the draw \<open>r\<close> of the random source.\<close>

definition random_choice :: "nat \<Rightarrow> 'a list \<Rightarrow> 'a" where
  "random_choice r xs = xs ! (r mod length xs)"

section \<open>The world of a run\<close>

text \<open>
  What the program prints, one constructor for each \<^verbatim>\<open>print\<close> (or prompt) of the two
  source files; the arguments are the computed parts of the message.
\<close>

datatype message =
    ProgramOutputHeader \<comment> \<open>\<^verbatim>\<open>--- Program output ---\<close>\<close>
  | Text pystr \<comment> \<open>a computed text printed as it is\<close>
  | NoOutput \<comment> \<open>\<^verbatim>\<open>[no output]\<close>\<close>
  | RuntimeErrors pystr \<comment> \<open>\<^verbatim>\<open>Runtime errors:\<close> and the captured stderr\<close>
  | OutputMatches \<comment> \<open>\<^verbatim>\<open>Output matches expected!\<close>\<close>
  | OutputDoesNotMatch \<comment> \<open>\<^verbatim>\<open>Output does NOT match expected!\<close>\<close>
  | ExpectedHeader \<comment> \<open>\<^verbatim>\<open>--- Expected ---\<close>\<close>
  | GotHeader \<comment> \<open>\<^verbatim>\<open>--- Got ---\<close>\<close>
  | MismatchTraceSaved pystr \<comment> \<open>\<^verbatim>\<open>Mismatch trace saved to {trace_file}\<close>\<close>
  | NoExercisesFound pystr \<comment> \<open>\<^verbatim>\<open>No exercises found in {level}\<close>\<close>
  | WorkingOn pystr pystr \<comment> \<open>\<^verbatim>\<open>Working on {level}/exercise {exercise}\<close>\<close>
  | Testing pystr pystr \<comment> \<open>\<^verbatim>\<open>Testing {difficulty}/{exercise}\<close>\<close>
  | DescriptionHeader \<comment> \<open>\<^verbatim>\<open>--- Exercise Description ---\<close>\<close>
  | DescriptionFooter \<comment> \<open>\<^verbatim>\<open>-----------------------------\<close>\<close>
  | ExactlyOneSolution \<comment> \<open>\<^verbatim>\<open>You must place exactly ONE solution file (.c or .cpp) in ./solutions/\<close>\<close>
  | CompilationSuccessful \<comment> \<open>\<^verbatim>\<open>Compilation successful!\<close>\<close>
  | CompilationFailed \<comment> \<open>\<^verbatim>\<open>Compilation failed!\<close>\<close>
  | TraceSaved pystr \<comment> \<open>\<^verbatim>\<open>Trace saved to {trace_file}\<close>\<close>
  | NoLevelFolders \<comment> \<open>\<^verbatim>\<open>No level folders found in tasks/subjects\<close>\<close>
  | AvailableLevels \<comment> \<open>\<^verbatim>\<open>Available levels:\<close>\<close>
  | LevelEntry nat pystr \<comment> \<open>\<^verbatim>\<open>{i}. {lvl}\<close>\<close>
  | ChooseLevelPrompt nat \<comment> \<open>\<^verbatim>\<open>Choose a level (1-{n}) or type level name (e.g., level1), or EXIT:\<close>\<close>
  | InvalidChoice \<comment> \<open>\<^verbatim>\<open>Invalid choice, try again.\<close>\<close>
  | ActionPrompt \<comment> \<open>\<^verbatim>\<open>Press Enter to evaluate, New to choose another exercise, ...\<close>\<close>
  | ReadyForNextAction \<comment> \<open>\<^verbatim>\<open>--- Ready for next action ---\<close>\<close>
  | ChooseNewLevel \<comment> \<open>\<^verbatim>\<open>Choose a new level...\<close>\<close>
  | InvalidInput \<comment> \<open>\<^verbatim>\<open>Invalid input, try again.\<close>\<close>
  | Exiting \<comment> \<open>\<^verbatim>\<open>Exiting program. Solutions, traces, and build cleared. Bye!\<close>\<close>
  | NoSubjects \<comment> \<open>\<^verbatim>\<open>No subjects found in the folder.\<close>\<close>
  | YourTask pystr \<comment> \<open>\<^verbatim>\<open>Your task: Work on difficulty {d}. Type Enter to test.\<close>\<close>
  | Switching \<comment> \<open>\<^verbatim>\<open>Switching to a new difficulty... Solutions, traces and build cleared.\<close>\<close>
  | ReadyToRetest \<comment> \<open>\<^verbatim>\<open>--- Ready to retest same difficulty (or type NEW/EXIT) ---\<close>\<close>

text \<open>
  The uncaught exceptions of the library calls the program makes: a file-system call on a
  path that is not what the call needs, \<^verbatim>\<open>input()\<close> at the end of the input,
  \<^verbatim>\<open>int()\<close> on a text that is no decimal number, \<^verbatim>\<open>os.path.join\<close> on \<^verbatim>\<open>None\<close>.
\<close>

datatype exn = OSError pystr | EOFError | ValueError | TypeError

record world =
  disk :: filesystem
  console :: "message list"
  spawned :: "pystr list list"

text \<open>
  \<open>spawned\<close> lists the argument vectors given to \<^verbatim>\<open>subprocess.run\<close>, in order.  A call
  returns the new world, or raises with the world as it was at that moment.
\<close>

type_synonym outcome = "(exn \<times> world) + world"

definition raise :: "exn \<Rightarrow> world \<Rightarrow> outcome" where
  "raise e w = Inl (e, w)"

definition seq :: "outcome \<Rightarrow> (world \<Rightarrow> outcome) \<Rightarrow> outcome" where
  "seq r f = (case r of Inl e \<Rightarrow> Inl e | Inr w \<Rightarrow> f w)"

definition final :: "outcome \<Rightarrow> world" where
  "final r = (case r of Inl (e, w) \<Rightarrow> w | Inr w \<Rightarrow> w)"

definition print :: "message \<Rightarrow> world \<Rightarrow> world" where
  "print m w = w\<lparr>console := console w @ [m]\<rparr>"

definition spawn :: "pystr list \<Rightarrow> world \<Rightarrow> world" where
  "spawn argv w = w\<lparr>spawned := spawned w @ [argv]\<rparr>"

text \<open>
  \<^verbatim>\<open>with open(os.path.join(dir, name), "w") as f: f.write(content)\<close>, for a \<open>name\<close>
  without slash: the directory must exist and the path must not be a directory.
\<close>

definition write_text :: "pystr \<Rightarrow> pystr \<Rightarrow> pystr \<Rightarrow> world \<Rightarrow> outcome" where
  "write_text dir name content w =
     (let p = path_join dir name
      in if isdir (disk w) dir \<and> \<not> isdir (disk w) p
         then Inr (w\<lparr>disk := AList.update p (File content) (disk w)\<rparr>)
         else raise (OSError p) w)"

text \<open>
  \<^verbatim>\<open>shutil.copy(os.path.join(src_dir, name), os.path.join(dst_dir, name))\<close>: the source
  must be a regular file; a destination that is a directory receives the file under its
  own name.
\<close>

definition shutil_copy :: "pystr \<Rightarrow> pystr \<Rightarrow> pystr \<Rightarrow> world \<Rightarrow> outcome" where
  "shutil_copy src_dir dst_dir name w =
     (case map_of (disk w) (path_join src_dir name) of
        Some (File content) \<Rightarrow>
          if isdir (disk w) (path_join dst_dir name)
          then write_text (path_join dst_dir name) name content w
          else write_text dst_dir name content w
      | _ \<Rightarrow> raise (OSError (path_join src_dir name)) w)"

text \<open>What the outside world answers during one run of the pipeline.\<close>

record completed_process =
  returncode :: int
  stdout :: pystr
  stderr :: pystr

text \<open>
  \<open>pick_level\<close> and \<open>pick\<close> are the draws of \<^verbatim>\<open>random.choice(DIFFICULTIES)\<close> and
  \<^verbatim>\<open>random.choice(exercises)\<close>; \<open>toolchain\<close> is what the compiler returns and
  \<open>artifact\<close> the executable it leaves when it succeeds; \<open>candidate\<close> is what the compiled
  program returns; \<open>now\<close> is \<^verbatim>\<open>datetime.now().strftime("%Y%m%d_%H%M%S")\<close>.  The
  compiler and the compiled program are taken to start (no \<^verbatim>\<open>OSError\<close> from
  \<^verbatim>\<open>subprocess.run\<close>) and to touch no other file.
\<close>

record env =
  pick_level :: nat
  pick :: nat
  toolchain :: completed_process
  artifact :: pystr
  candidate :: completed_process
  now :: pystr

section \<open>Workspace Manager\<close>

text \<open>
  \<^verbatim>\<open>
  def clear_folder(folder_path):
      if os.path.exists(folder_path):
          for file in os.listdir(folder_path):
              file_path = os.path.join(folder_path, file)
              if os.path.isfile(file_path):
                  os.remove(file_path)
  \<close>
\<close>

definition remove_if_file :: "pystr \<Rightarrow> pystr \<Rightarrow> filesystem \<Rightarrow> filesystem" where
  "remove_if_file folder_path file fs =
     (let file_path = path_join folder_path file
      in if isfile fs file_path then AList.delete file_path fs else fs)"

definition clear_files :: "pystr \<Rightarrow> filesystem \<Rightarrow> filesystem" where
  "clear_files folder_path fs = fold (remove_if_file folder_path) (listdir fs folder_path) fs"

definition clear_folder :: "pystr \<Rightarrow> world \<Rightarrow> outcome" where
  "clear_folder folder_path w =
     (if path_exists (disk w) folder_path then
        if isdir (disk w) folder_path
        then Inr (w\<lparr>disk := clear_files folder_path (disk w)\<rparr>)
        else raise (OSError folder_path) w
      else Inr w)"

section \<open>Build-and-Verify Pipeline\<close>

text \<open>
  The text that \<^verbatim>\<open>run_and_check\<close> writes into the mismatch trace (five \<^verbatim>\<open>f.write\<close>
  calls; 10060 is the cross mark that opens the first line, 10 the newline), and the text
  that \<^verbatim>\<open>test_subject\<close> writes into the trace of a failed compilation.
\<close>

definition mismatch_trace :: "pystr list \<Rightarrow> pystr list \<Rightarrow> pystr" where
  "mismatch_trace norm_expected norm_actual =
     10060 # ascii '' Output mismatch!'' @ [10] @
     ascii ''--- Expected ---'' @ [10] @
     join_lines norm_expected @ [10] @
     ascii ''--- Got ---'' @ [10] @
     join_lines norm_actual @ [10]"

definition compile_trace :: "completed_process \<Rightarrow> pystr" where
  "compile_trace e =
     ascii ''--- Compiler stdout ---'' @ [10] @
     stdout e @
     10 # ascii ''--- Compiler stderr ---'' @ [10] @
     stderr e"

text \<open>
  \<^verbatim>\<open>run_and_check(exe_file, expected_output_file, subject)\<close> (identical in both source
  files).  The \<^verbatim>\<open>case\<close> on the expected-output path is \<^verbatim>\<open>os.path.isfile\<close> followed by
  the read of the file.
\<close>

definition run_and_check :: "env \<Rightarrow> pystr \<Rightarrow> pystr \<Rightarrow> pystr \<Rightarrow> world \<Rightarrow> outcome" where
  "run_and_check orc exe_file expected_output_file subject w0 =
     (let w1 = spawn [exe_file] w0;
          result = candidate orc;
          actual_output = strip (stdout result);
          w2 = print ProgramOutputHeader w1;
          w3 = print (if actual_output \<noteq> [] then Text actual_output else NoOutput) w2;
          w4 = (if stderr result \<noteq> [] then print (RuntimeErrors (stderr result)) w3 else w3)
      in case map_of (disk w4) expected_output_file of
           Some (File content) \<Rightarrow>
             (let expected_output = strip content;
                  norm_actual = normalize_output actual_output;
                  norm_expected = normalize_output expected_output
              in if norm_actual = norm_expected then Inr (print OutputMatches w4)
                 else
                   (let w5 = print OutputDoesNotMatch w4;
                        w6 = print ExpectedHeader w5;
                        w7 = print (Text (join_lines norm_expected)) w6;
                        w8 = print GotHeader w7;
                        w9 = print (Text (join_lines norm_actual)) w8;
                        timestamp = now orc;
                        trace_name = subject @ ascii ''_trace_'' @ timestamp @ ascii ''.txt''
                    in seq (write_text TRACE_DIR trace_name
                              (mismatch_trace norm_expected norm_actual) w9)
                         (\<lambda>w10. Inr (print (MismatchTraceSaved (path_join TRACE_DIR trace_name)) w10))))
         | _ \<Rightarrow> Inr w4)"

text \<open>
  \<^verbatim>\<open>test_subject\<close> from the clearing of the build folder on: lines 79 to 114 of
  \<^verbatim>\<open>grademe_version6.py\<close>, which are lines 91 to 127 of \<^verbatim>\<open>grademe_version1.py\<close>.
  \<^verbatim>\<open>subprocess.run(compiler, check=True, ...)\<close> raises \<^verbatim>\<open>CalledProcessError\<close> exactly
  when the return code is not zero; a compiler that returns zero has written the executable.
\<close>

definition solution_files :: "filesystem \<Rightarrow> pystr list" where
  "solution_files fs =
     filter (\<lambda>f. endswith f (ascii ''.c'') \<or> endswith f (ascii ''.cpp'')) (listdir fs SOLUTIONS_DIR)"

definition compiler_command :: "pystr \<Rightarrow> pystr list" where
  "compiler_command name =
     (let solution_file = path_join SOLUTIONS_DIR name;
          dst_file = path_join BUILD_DIR name;
          exe_file = path_join BUILD_DIR (ascii ''program.out'')
      in if endswith solution_file (ascii ''.cpp'')
         then [ascii ''c++'', ascii ''-std=c++17'', ascii ''-o'', exe_file, dst_file]
         else [ascii ''gcc'', ascii ''-std=c11'', ascii ''-o'', exe_file, dst_file])"

definition test_subject_body :: "env \<Rightarrow> pystr \<Rightarrow> pystr \<Rightarrow> pystr \<Rightarrow> world \<Rightarrow> outcome" where
  "test_subject_body orc level exercise subject_dir w0 =
     seq (clear_folder BUILD_DIR w0) (\<lambda>w1.
       if \<not> isdir (disk w1) SOLUTIONS_DIR then raise (OSError SOLUTIONS_DIR) w1
       else if length (solution_files (disk w1)) \<noteq> 1 then Inr (print ExactlyOneSolution w1)
       else
         seq (shutil_copy SOLUTIONS_DIR BUILD_DIR (solution_files (disk w1) ! 0) w1) (\<lambda>w2.
           let exe_file = path_join BUILD_DIR (ascii ''program.out'');
               w3 = spawn (compiler_command (solution_files (disk w1) ! 0)) w2
           in if returncode (toolchain orc) = 0 then
                (let w4 = w3\<lparr>disk := AList.update exe_file (File (artifact orc)) (disk w3)\<rparr>;
                     w5 = print CompilationSuccessful w4;
                     expected_output_file =
                       path_join (path_join subject_dir (ascii ''output'')) (ascii ''output.txt'')
                 in run_and_check orc exe_file expected_output_file
                      (level @ ascii ''_'' @ exercise) w5)
              else
                (let w4 = print CompilationFailed w3;
                     timestamp = now orc;
                     trace_name =
                       level @ ascii ''_'' @ exercise @ ascii ''_compile_'' @ timestamp @ ascii ''.txt''
                 in seq (write_text TRACE_DIR trace_name (compile_trace (toolchain orc)) w4)
                      (\<lambda>w5. Inr (print (TraceSaved (path_join TRACE_DIR trace_name)) w5)))))"

text \<open>The exercise folders of a level, and the head of \<^verbatim>\<open>test_subject\<close> in each file.\<close>

definition exercises_of :: "filesystem \<Rightarrow> pystr \<Rightarrow> pystr list" where
  "exercises_of fs level =
     (let level_dir = path_join TASKS_DIR level
      in filter (\<lambda>f. isdir fs (path_join level_dir f)) (listdir fs level_dir))"

definition test_subject_v6 :: "env \<Rightarrow> pystr \<Rightarrow> world \<Rightarrow> outcome" where
  "test_subject_v6 orc level w0 =
     (let level_dir = path_join TASKS_DIR level
      in if \<not> isdir (disk w0) level_dir then raise (OSError level_dir) w0
         else
           (let exercises = exercises_of (disk w0) level
            in if exercises = [] then Inr (print (NoExercisesFound level) w0)
               else
                 (let exercise = random_choice (pick orc) exercises;
                      subject_dir = path_join level_dir exercise;
                      w1 = print (WorkingOn level exercise) w0
                  in test_subject_body orc level exercise subject_dir w1)))"

definition test_subject_v1 :: "env \<Rightarrow> pystr \<Rightarrow> world \<Rightarrow> outcome" where
  "test_subject_v1 orc difficulty w0 =
     (let difficulty_dir = path_join TASKS_DIR difficulty
      in if \<not> isdir (disk w0) difficulty_dir then raise (OSError difficulty_dir) w0
         else
           (let exercises = exercises_of (disk w0) difficulty
            in if exercises = [] then Inr (print (NoExercisesFound difficulty) w0)
               else
                 (let exercise = random_choice (pick orc) exercises;
                      subject_dir = path_join difficulty_dir exercise;
                      w1 = print (Testing difficulty exercise) w0;
                      subject_txt = path_join subject_dir (ascii ''subject.txt'');
                      w2 = (case map_of (disk w1) subject_txt of
                              Some (File content) \<Rightarrow>
                                print DescriptionFooter
                                  (print (Text (strip content)) (print DescriptionHeader w1))
                            | _ \<Rightarrow> w1)
                  in test_subject_body orc difficulty exercise subject_dir w2)))"

section \<open>Session Controller\<close>

text \<open>
  The case mapping and the digit tables of Unicode are not part of the repository; the
  command loops take them as a parameter: \<^verbatim>\<open>str.lower\<close>, \<^verbatim>\<open>str.upper\<close>,
  \<^verbatim>\<open>str.isdigit\<close>, and \<^verbatim>\<open>int\<close> (\<open>None\<close> when it raises \<^verbatim>\<open>ValueError\<close>).
  \<open>ascii_unicode\<close> is their behaviour on ASCII texts.
\<close>

record unicode =
  lower :: "pystr \<Rightarrow> pystr"
  upper :: "pystr \<Rightarrow> pystr"
  isdigit :: "pystr \<Rightarrow> bool"
  to_int :: "pystr \<Rightarrow> int option"

definition ascii_unicode :: unicode where
  "ascii_unicode =
     \<lparr>lower = map (\<lambda>c. if 65 \<le> c \<and> c \<le> 90 then c + 32 else c),
      upper = map (\<lambda>c. if 97 \<le> c \<and> c \<le> 122 then c - 32 else c),
      isdigit = (\<lambda>s. s \<noteq> [] \<and> list_all (\<lambda>c. 48 \<le> c \<and> c \<le> 57) s),
      to_int = (\<lambda>s. if s \<noteq> [] \<and> list_all (\<lambda>c. 48 \<le> c \<and> c \<le> 57) s
                     then Some (foldl (\<lambda>n c. 10 * n + int (c - 48)) 0 s) else None)\<rparr>"

text \<open>
  The state of the command loop: the selected level (\<^verbatim>\<open>current_level\<close>, in the first
  file \<^verbatim>\<open>current_difficulty\<close>), the lines still to be read from the standard input, the
  number of pipeline runs so far (run \<open>k\<close> gets the answers \<open>orcs k\<close>), whether the loop is
  still running, and the world.
\<close>

datatype status = Running | Terminated | Crashed exn

record session =
  current_level :: "pystr option"
  stdin :: "pystr list"
  runs :: nat
  status :: status
  the_world :: world

definition say :: "message \<Rightarrow> session \<Rightarrow> session" where
  "say m s = s\<lparr>the_world := print m (the_world s)\<rparr>"

definition crash :: "exn \<Rightarrow> session \<Rightarrow> session" where
  "crash e s = s\<lparr>status := Crashed e\<rparr>"

definition absorb :: "outcome \<Rightarrow> session \<Rightarrow> session" where
  "absorb r s =
     (case r of
        Inl (e, w) \<Rightarrow> s\<lparr>status := Crashed e, the_world := w\<rparr>
      | Inr w \<Rightarrow> s\<lparr>the_world := w\<rparr>)"

definition running_then :: "session \<Rightarrow> (session \<Rightarrow> session) \<Rightarrow> session" where
  "running_then s f = (if status s = Running then f s else s)"

text \<open>
  \<^verbatim>\<open>clear_folder(SOLUTIONS_DIR); clear_folder(TRACE_DIR); clear_folder(BUILD_DIR)\<close>
\<close>

definition clear_all :: "world \<Rightarrow> outcome" where
  "clear_all w =
     seq (seq (clear_folder SOLUTIONS_DIR w) (clear_folder TRACE_DIR)) (clear_folder BUILD_DIR)"

text \<open>The exit branch (the same in both files, up to a comma in the message).\<close>

definition exit_program :: "session \<Rightarrow> session" where
  "exit_program s =
     running_then (absorb (clear_all (the_world s)) s)
       (\<lambda>s'. (say Exiting s')\<lparr>status := Terminated\<rparr>)"

subsection \<open>The loop of \<^verbatim>\<open>grademe_version6.py\<close>\<close>

definition run_test_v6 :: "(nat \<Rightarrow> env) \<Rightarrow> pystr option \<Rightarrow> session \<Rightarrow> session" where
  "run_test_v6 orcs level s =
     (case level of
        None \<Rightarrow> crash TypeError s
      | Some l \<Rightarrow> (absorb (test_subject_v6 (orcs (runs s)) l (the_world s)) s)\<lparr>runs := Suc (runs s)\<rparr>)"

text \<open>Lines 152 to 173: the prompt after a level is chosen.\<close>

definition action_prompt_v6 :: "unicode \<Rightarrow> (nat \<Rightarrow> env) \<Rightarrow> session \<Rightarrow> session" where
  "action_prompt_v6 U orcs s0 =
     (let s1 = say ActionPrompt s0
      in case stdin s1 of
           [] \<Rightarrow> crash EOFError s1
         | line # rest \<Rightarrow>
             (let s2 = s1\<lparr>stdin := rest\<rparr>;
                  user_input = lower U (strip line)
              in if user_input = [] then
                   running_then (run_test_v6 orcs (current_level s2) s2) (say ReadyForNextAction)
                 else if user_input = ascii ''new'' then
                   running_then (run_test_v6 orcs (current_level s2) s2) (say ReadyForNextAction)
                 else if user_input = ascii ''newnew'' then
                   say ChooseNewLevel (s2\<lparr>current_level := None\<rparr>)
                 else if user_input = ascii ''exit'' then exit_program s2
                 else say InvalidInput s2))"

text \<open>
  Lines 121 to 149: the choice of a level.  The flag tells whether control goes on to the
  action prompt in the same pass of the loop (not after \<^verbatim>\<open>break\<close>, \<^verbatim>\<open>continue\<close> or an
  exception).
\<close>

definition choose_level_v6 :: "unicode \<Rightarrow> (nat \<Rightarrow> env) \<Rightarrow> session \<Rightarrow> bool \<times> session" where
  "choose_level_v6 U orcs s0 =
     (if \<not> isdir (disk (the_world s0)) TASKS_DIR then (False, crash (OSError TASKS_DIR) s0)
      else
        (let levels = filter (\<lambda>f. isdir (disk (the_world s0)) (path_join TASKS_DIR f))
                        (listdir (disk (the_world s0)) TASKS_DIR)
         in if levels = [] then (False, (say NoLevelFolders s0)\<lparr>status := Terminated\<rparr>)
            else
              (let s1 = say AvailableLevels s0;
                   s2 = fold (\<lambda>(i, lvl). say (LevelEntry i lvl))
                          (zip [1..<Suc (length levels)] levels) s1;
                   s3 = say (ChooseLevelPrompt (length levels)) s2
               in case stdin s3 of
                    [] \<Rightarrow> (False, crash EOFError s3)
                  | line # rest \<Rightarrow>
                      (let s4 = s3\<lparr>stdin := rest\<rparr>;
                           choice = lower U (strip line);
                           selected = (\<lambda>lvl.
                             let s5 = run_test_v6 orcs (Some lvl) (s4\<lparr>current_level := Some lvl\<rparr>)
                             in (status s5 = Running, s5));
                           by_name =
                             (if choice \<in> set (map (lower U) levels)
                              then selected (hd (filter (\<lambda>lvl. lower U lvl = choice) levels))
                              else (False, say InvalidChoice s4))
                       in if upper U choice = ascii ''EXIT'' then (False, exit_program s4)
                          else if isdigit U choice then
                            (case to_int U choice of
                               None \<Rightarrow> (False, crash ValueError s4)
                             | Some n \<Rightarrow>
                                 if 1 \<le> n \<and> n \<le> int (length levels)
                                 then selected (levels ! nat (n - 1))
                                 else by_name)
                          else by_name))))"

text \<open>One pass of the \<^verbatim>\<open>while True\<close> loop.\<close>

definition iteration_v6 :: "unicode \<Rightarrow> (nat \<Rightarrow> env) \<Rightarrow> session \<Rightarrow> session" where
  "iteration_v6 U orcs s =
     (case current_level s of
        None \<Rightarrow>
          (case choose_level_v6 U orcs s of
             (go_on, s') \<Rightarrow> if go_on then action_prompt_v6 U orcs s' else s')
      | Some level \<Rightarrow> action_prompt_v6 U orcs s)"

subsection \<open>The loop of \<^verbatim>\<open>grademe_version1.py\<close>\<close>

definition run_test_v1 :: "(nat \<Rightarrow> env) \<Rightarrow> pystr option \<Rightarrow> session \<Rightarrow> session" where
  "run_test_v1 orcs difficulty s =
     (case difficulty of
        None \<Rightarrow> crash TypeError s
      | Some d \<Rightarrow> (absorb (test_subject_v1 (orcs (runs s)) d (the_world s)) s)\<lparr>runs := Suc (runs s)\<rparr>)"

text \<open>
  One pass of the loop, lines 134 to 157; \<open>DIFFICULTIES\<close> is the list the module computes
  once when it is loaded.
\<close>

definition iteration_v1 :: "unicode \<Rightarrow> (nat \<Rightarrow> env) \<Rightarrow> pystr list \<Rightarrow> session \<Rightarrow> session" where
  "iteration_v1 U orcs DIFFICULTIES s0 =
     (if current_level s0 = None \<and> DIFFICULTIES = []
      then (say NoSubjects s0)\<lparr>status := Terminated\<rparr>
      else
        (let s1 = (if current_level s0 = None
                   then (let d = random_choice (pick_level (orcs (runs s0))) DIFFICULTIES
                         in say (YourTask d) (s0\<lparr>current_level := Some d\<rparr>))
                   else s0)
         in case stdin s1 of
              [] \<Rightarrow> crash EOFError s1
            | line # rest \<Rightarrow>
                (let s2 = s1\<lparr>stdin := rest\<rparr>;
                     user_input = strip line
                 in if upper U user_input = ascii ''EXIT'' then exit_program s2
                    else if upper U user_input = ascii ''NEW'' then
                      running_then (absorb (clear_all (the_world s2)) s2)
                        (\<lambda>s3. say Switching (s3\<lparr>current_level := None\<rparr>))
                    else
                      running_then (run_test_v1 orcs (current_level s2) s2) (say ReadyToRetest))))"

section \<open>Notions used in the statements\<close>

text \<open>The lines a list of lines leaves behind: each stripped, the empty ones dropped.\<close>

definition kept :: "pystr list \<Rightarrow> pystr list" where
  "kept ls = filter (\<lambda>line. line \<noteq> []) (map strip ls)"

text \<open>
  How the lines of a text change when one whitespace character \<open>c\<close> is appended to it: a
  line is added or the last line grows by \<open>c\<close>; seen from the first line, the first line
  grows or the remaining lines keep what they leave behind.
\<close>

definition grown :: "nat \<Rightarrow> pystr list \<Rightarrow> pystr list \<Rightarrow> bool" where
  "grown c X X' =
     (case X of
        [] \<Rightarrow> X' = [[]] \<or> X' = [[c]]
      | l # ls \<Rightarrow> (\<exists>l' ls'. X' = l' # ls' \<and> (l' = l \<or> l' = l @ [c]) \<and> kept ls' = kept ls))"

text \<open>A line as the normalizer returns it: not empty, no whitespace at either end, no line break.\<close>

definition clean_line :: "pystr \<Rightarrow> bool" where
  "clean_line l \<longleftrightarrow>
     l \<noteq> [] \<and> \<not> isspace (hd l) \<and> \<not> isspace (last l) \<and> \<not> list_ex is_linebreak l"

text \<open>The file system after \<^verbatim>\<open>clear_folder\<close> has returned.\<close>

definition cleared :: "pystr \<Rightarrow> filesystem \<Rightarrow> filesystem" where
  "cleared d fs = (if path_exists fs d then clear_files d fs else fs)"

text \<open>The text of a regular file, and what \<^verbatim>\<open>run_and_check\<close> prints about the program's output.\<close>

definition expected_text :: "filesystem \<Rightarrow> pystr \<Rightarrow> pystr option" where
  "expected_text fs p = (case map_of fs p of Some (File content) \<Rightarrow> Some content | _ \<Rightarrow> None)"

definition program_output :: "env \<Rightarrow> message list" where
  "program_output orc =
     [ProgramOutputHeader,
      if strip (stdout (candidate orc)) \<noteq> [] then Text (strip (stdout (candidate orc))) else NoOutput] @
     (if stderr (candidate orc) \<noteq> [] then [RuntimeErrors (stderr (candidate orc))] else [])"

text \<open>The verdict among the messages of a run, and the messages a call has added.\<close>

datatype verdict = Match | Mismatch

definition verdict_of :: "message list \<Rightarrow> verdict option" where
  "verdict_of ms =
     (if OutputMatches \<in> set ms then Some Match
      else if OutputDoesNotMatch \<in> set ms then Some Mismatch
      else None)"

definition printed_by :: "world \<Rightarrow> outcome \<Rightarrow> message list" where
  "printed_by w r = drop (length (console w)) (console (final r))"

definition spawned_by :: "world \<Rightarrow> outcome \<Rightarrow> pystr list list" where
  "spawned_by w r = drop (length (spawned w)) (spawned (final r))"

text \<open>What the first file prints as the description of the exercise.\<close>

definition description_v1 :: "filesystem \<Rightarrow> pystr \<Rightarrow> pystr \<Rightarrow> message list" where
  "description_v1 fs difficulty exercise =
     (case map_of fs (path_join (path_join (path_join TASKS_DIR difficulty) exercise)
                        (ascii ''subject.txt'')) of
        Some (File content) \<Rightarrow> [DescriptionHeader, Text (strip content), DescriptionFooter]
      | _ \<Rightarrow> [])"

text \<open>The names of the two trace files.\<close>

definition mismatch_trace_file :: "pystr \<Rightarrow> pystr \<Rightarrow> pystr" where
  "mismatch_trace_file subject timestamp =
     path_join TRACE_DIR (subject @ ascii ''_trace_'' @ timestamp @ ascii ''.txt'')"

definition compile_trace_file :: "pystr \<Rightarrow> pystr \<Rightarrow> pystr \<Rightarrow> pystr" where
  "compile_trace_file level exercise timestamp =
     path_join TRACE_DIR
       (level @ ascii ''_'' @ exercise @ ascii ''_compile_'' @ timestamp @ ascii ''.txt'')"


text \<open>A small workspace and the answers of the outside world, for concrete runs.\<close>

definition example_disk :: filesystem where
  "example_disk =
     [(TASKS_DIR, Dir),
      (ascii ''./tasks/subjects/level1'', Dir),
      (ascii ''./tasks/subjects/level1/1'', Dir),
      (ascii ''./tasks/subjects/level1/1/output'', Dir),
      (ascii ''./tasks/subjects/level1/1/output/output.txt'', File (ascii ''Hello'' @ [10] @ ascii ''World'')),
      (SOLUTIONS_DIR, Dir),
      (ascii ''./solutions/a.c'', File (ascii ''int main(){}'')),
      (BUILD_DIR, Dir),
      (ascii ''./build/old.o'', File []),
      (ascii ''./build/sub'', Dir),
      (TRACE_DIR, Dir)]"

definition example_world :: world where
  "example_world = \<lparr>disk = example_disk, console = [], spawned = []\<rparr>"

definition example_env :: "int \<Rightarrow> pystr \<Rightarrow> env" where
  "example_env rc out =
     \<lparr>pick_level = 0, pick = 0,
      toolchain = \<lparr>returncode = rc, stdout = [], stderr = ascii ''error''\<rparr>,
      artifact = [127, 69, 76, 70],
      candidate = \<lparr>returncode = 0, stdout = out, stderr = []\<rparr>,
      now = ascii ''20240101_120000''\<rparr>"

section \<open>The normalizer: lines, stripping, joining\<close>

lemma linebreak_isspace: "is_linebreak c \<Longrightarrow> isspace c"
  by (auto simp: is_linebreak_def isspace_def)

lemma strip_Cons_space: "isspace c \<Longrightarrow> strip (c # l) = strip l"
  by (simp add: strip_def lstrip_def)

lemma strip_snoc_space:
  assumes "isspace c"
  shows "strip (l @ [c]) = strip l"
proof (cases "\<forall>x\<in>set l. isspace x")
  case True
  with assms have "dropWhile isspace (l @ [c]) = []" "dropWhile isspace l = []"
    by (auto simp: dropWhile_eq_Nil_conv dest: set_dropWhileD)
  then show ?thesis by (simp only: strip_def lstrip_def)
next
  case False
  then have "dropWhile isspace (l @ [c]) = dropWhile isspace l @ [c]"
    by (auto simp: dropWhile_append1)
  with assms show ?thesis by (simp add: strip_def lstrip_def rstrip_def)
qed

lemma strip_Nil: "strip [] = []"
  by (simp add: strip_def lstrip_def rstrip_def)

lemma strip_single_space: "isspace c \<Longrightarrow> strip [c] = []"
  by (simp add: strip_def lstrip_def rstrip_def)

lemma kept_simps:
  "kept [] = []"
  "kept (l # ls) = (if strip l = [] then kept ls else strip l # kept ls)"
  by (simp_all add: kept_def)

lemma splitlines_CRLF: "splitlines (13 # 10 # ds) = [] # splitlines ds"
  by (simp add: is_linebreak_def)

lemma splitlines_break:
  "is_linebreak c \<Longrightarrow> c \<noteq> 13 \<or> cs = [] \<or> hd cs \<noteq> 10 \<Longrightarrow> splitlines (c # cs) = [] # splitlines cs"
  by (cases cs) auto

lemma splitlines_LF: "splitlines (10 # ds) = [] # splitlines ds"
  by (cases ds) (simp_all add: is_linebreak_def)

lemma splitlines_nonbreak:
  "\<not> is_linebreak c \<Longrightarrow>
   splitlines (c # cs) = (case splitlines cs of [] \<Rightarrow> [[c]] | l # ls \<Rightarrow> (c # l) # ls)"
  by simp

declare splitlines.simps(2) [simp del]

lemma kept_splitlines_Cons_space:
  assumes "isspace c"
  shows "kept (splitlines (c # cs)) = kept (splitlines cs)"
proof (cases "is_linebreak c")
  case True
  show ?thesis
  proof (cases "c = 13 \<and> cs \<noteq> [] \<and> hd cs = 10")
    case crlf: True
    then obtain ds where "cs = 10 # ds" by (cases cs) auto
    with crlf show ?thesis
      by (simp add: splitlines_CRLF splitlines_LF kept_simps strip_Nil)
  next
    case False
    with True have "splitlines (c # cs) = [] # splitlines cs"
      by (intro splitlines_break) auto
    then show ?thesis by (simp add: kept_simps strip_Nil)
  qed
next
  case False
  then show ?thesis using assms
    by (cases "splitlines cs")
      (simp_all add: splitlines_nonbreak kept_simps strip_Cons_space strip_single_space strip_Nil)
qed

lemma kept_splitlines_lstrip: "kept (splitlines (lstrip s)) = kept (splitlines s)"
proof (induction s)
  case Nil
  then show ?case by (simp add: lstrip_def)
next
  case (Cons c cs)
  show ?case
  proof (cases "isspace c")
    case True
    with Cons show ?thesis
      using kept_splitlines_Cons_space [OF True, of cs] by (simp add: lstrip_def)
  next
    case False
    then show ?thesis by (simp add: lstrip_def)
  qed
qed

lemma splitlines_single: "splitlines [c] = (if is_linebreak c then [[]] else [[c]])"
  by (simp add: splitlines.simps(2))

lemma grown_kept: "isspace c \<Longrightarrow> grown c X X' \<Longrightarrow> kept X' = kept X"
  by (cases X) (auto simp: grown_def kept_simps strip_Nil strip_single_space strip_snoc_space)

lemma splitlines_snoc_grown:
  "isspace c \<Longrightarrow> grown c (splitlines s) (splitlines (s @ [c]))"
proof (induction s rule: splitlines.induct)
  case 1
  then show ?case by (simp add: grown_def splitlines_single)
next
  case (2 d t)
  show ?case
  proof (cases "is_linebreak d")
    case True
    have base: "grown c [] (splitlines [c])"
      by (simp add: grown_def splitlines_single)
    have IH: "grown c (splitlines t) (splitlines (t @ [c]))" if "\<not> (d = 13 \<and> t \<noteq> [] \<and> hd t = 10)"
    proof (cases t)
      case Nil
      with base show ?thesis by simp
    next
      case (Cons e es)
      with 2 True that show ?thesis by simp
    qed
    consider (crlf) es where "d = 13" "t = 10 # es" | (crlf_end) "d = 13" "t = []" "c = 10"
      | (other) "\<not> (d = 13 \<and> t \<noteq> [] \<and> hd t = 10)" "\<not> (d = 13 \<and> t = [] \<and> c = 10)"
      by (cases t) auto
    then show ?thesis
    proof cases
      case crlf
      with 2 True have "grown c (splitlines es) (splitlines (es @ [c]))" by simp
      with crlf 2(4) show ?thesis
        by (auto simp: grown_def splitlines_CRLF dest: grown_kept)
    next
      case crlf_end
      then show ?thesis
        by (simp add: grown_def splitlines_CRLF splitlines.simps(2) [of 13 "[]"] is_linebreak_def)
    next
      case other
      with True have "splitlines (d # t) = [] # splitlines t"
        "splitlines (d # t @ [c]) = [] # splitlines (t @ [c])"
        by (auto intro!: splitlines_break simp: hd_append split: if_splits)
      with IH [OF other(1)] 2(4) show ?thesis
        by (auto simp: grown_def dest: grown_kept)
    qed
  next
    case False
    with 2 have "grown c (splitlines t) (splitlines (t @ [c]))" by simp
    with False show ?thesis
      by (cases "splitlines t") (auto simp: grown_def splitlines_nonbreak)
  qed
qed

lemma kept_splitlines_snoc_space:
  "isspace c \<Longrightarrow> kept (splitlines (s @ [c])) = kept (splitlines s)"
  using grown_kept splitlines_snoc_grown by blast

lemma kept_splitlines_rstrip: "kept (splitlines (rstrip s)) = kept (splitlines s)"
proof (induction s rule: rev_induct)
  case Nil
  then show ?case by (simp add: rstrip_def)
next
  case (snoc c s)
  show ?case
  proof (cases "isspace c")
    case True
    with snoc show ?thesis
      using kept_splitlines_snoc_space [OF True, of s] by (simp add: rstrip_def)
  next
    case False
    then show ?thesis by (simp add: rstrip_def)
  qed
qed

lemma normalize_output_kept: "normalize_output text = kept (splitlines (strip text))"
  by (simp add: normalize_output_def kept_def filter_map comp_def)

lemma splitlines_no_linebreak:
  "l \<in> set (splitlines s) \<Longrightarrow> c \<in> set l \<Longrightarrow> \<not> is_linebreak c"
proof (induction s arbitrary: l rule: splitlines.induct)
  case 1
  then show ?case by simp
next
  case (2 d t)
  show ?case
  proof (cases "is_linebreak d")
    case True
    show ?thesis
    proof (cases t)
      case Nil
      with True "2.prems" show ?thesis by (simp add: splitlines_single)
    next
      case (Cons e es)
      show ?thesis
      proof (cases "d = 13 \<and> e = 10")
        case crlf: True
        with Cons "2.prems" have "l = [] \<or> l \<in> set (splitlines es)"
          by (auto simp: splitlines_CRLF)
        with "2.IH"(1) [OF True Cons crlf] "2.prems" show ?thesis by auto
      next
        case False
        with True Cons have "splitlines (d # t) = [] # splitlines t"
          by (auto intro!: splitlines_break)
        with "2.IH"(2) [OF True Cons False] "2.prems" show ?thesis by auto
      qed
    qed
  next
    case False
    with "2.IH"(3) "2.prems" show ?thesis
      by (cases "splitlines t") (auto simp: splitlines_nonbreak, blast+)
  qed
qed

lemma set_strip: "set (strip l) \<subseteq> set l"
  unfolding strip_def lstrip_def rstrip_def
  by (auto dest!: set_dropWhileD)

lemma hd_strip: "strip l \<noteq> [] \<Longrightarrow> \<not> isspace (hd (strip l))"
proof -
  assume ne: "strip l \<noteq> []"
  have "dropWhile isspace l \<noteq> []"
  proof
    assume e: "dropWhile isspace l = []"
    have "strip l = rstrip (dropWhile isspace l)"
      by (simp only: strip_def lstrip_def)
    also have "\<dots> = []"
      unfolding e by (simp add: rstrip_def)
    finally show False using ne by simp
  qed
  then have "\<not> isspace (hd (dropWhile isspace l))"
    by (rule hd_dropWhile)
  moreover have "\<exists>zs. dropWhile isspace l = strip l @ zs"
    unfolding strip_def lstrip_def rstrip_def
    by (metis takeWhile_dropWhile_id rev_append rev_rev_ident)
  ultimately show ?thesis using ne by (auto simp: hd_append)
qed

lemma last_strip: "strip l \<noteq> [] \<Longrightarrow> \<not> isspace (last (strip l))"
proof -
  assume ne: "strip l \<noteq> []"
  then have "dropWhile isspace (rev (lstrip l)) \<noteq> []"
    by (simp add: strip_def rstrip_def)
  then have "\<not> isspace (hd (dropWhile isspace (rev (lstrip l))))"
    by (rule hd_dropWhile)
  with ne show ?thesis
    by (simp add: strip_def rstrip_def last_rev)
qed

lemma strip_clean:
  assumes "l \<noteq> []" "\<not> isspace (hd l)" "\<not> isspace (last l)"
  shows "strip l = l"
proof -
  have "lstrip l = l"
    using assms by (cases l) (simp_all add: lstrip_def)
  moreover have "rstrip l = l"
    using assms by (cases l rule: rev_cases) (simp_all add: rstrip_def)
  ultimately show ?thesis by (simp add: strip_def)
qed

lemma normalize_output_clean: "l \<in> set (normalize_output x) \<Longrightarrow> clean_line l"
  unfolding normalize_output_def clean_line_def Let_def list_ex_iff
  using set_strip splitlines_no_linebreak hd_strip last_strip
  by (auto, blast)

lemma splitlines_line:
  "l \<noteq> [] \<Longrightarrow> \<not> list_ex is_linebreak l \<Longrightarrow> splitlines (l @ 10 # rest) = l # splitlines rest"
proof (induction l)
  case Nil
  then show ?case by simp
next
  case (Cons c l)
  then show ?case
    by (cases l) (simp_all add: splitlines_nonbreak splitlines_LF)
qed

lemma splitlines_last_line:
  "l \<noteq> [] \<Longrightarrow> \<not> list_ex is_linebreak l \<Longrightarrow> splitlines l = [l]"
proof (induction l)
  case Nil
  then show ?case by simp
next
  case (Cons c l)
  then show ?case
    by (cases l) (simp_all add: splitlines_nonbreak)
qed

lemma splitlines_join_lines:
  "list_all clean_line ls \<Longrightarrow> splitlines (join_lines ls) = ls"
  by (induction ls rule: join_lines.induct)
    (simp_all add: clean_line_def splitlines_line splitlines_last_line)

lemma join_lines_Nil: "join_lines ls = [] \<longleftrightarrow> ls = [] \<or> ls = [[]]"
  by (induction ls rule: join_lines.induct) simp_all

lemma hd_join_lines: "ls \<noteq> [] \<Longrightarrow> hd ls \<noteq> [] \<Longrightarrow> hd (join_lines ls) = hd (hd ls)"
  by (induction ls rule: join_lines.induct) simp_all

lemma last_join_lines: "ls \<noteq> [] \<Longrightarrow> last ls \<noteq> [] \<Longrightarrow> last (join_lines ls) = last (last ls)"
  by (induction ls rule: join_lines.induct) (auto simp: join_lines_Nil)

lemma strip_join_lines:
  assumes "list_all clean_line ls"
  shows "strip (join_lines ls) = join_lines ls"
proof (cases ls)
  case Nil
  then show ?thesis by (simp add: strip_Nil)
next
  case (Cons a as)
  with assms have "clean_line (hd ls)" "clean_line (last ls)" "ls \<noteq> []"
    by (auto simp: list_all_iff)
  then show ?thesis
    by (intro strip_clean) (auto simp: hd_join_lines last_join_lines clean_line_def join_lines_Nil)
qed

lemma normalize_output_join_lines:
  assumes "list_all clean_line ls"
  shows "normalize_output (join_lines ls) = ls"
proof -
  from assms have "\<forall>l\<in>set ls. strip l = l \<and> l \<noteq> []"
    by (auto simp: list_all_iff clean_line_def strip_clean)
  then have "map strip (filter (\<lambda>line. strip line \<noteq> []) ls) = ls"
    by (induction ls) auto
  with assms show ?thesis
    by (simp add: normalize_output_def strip_join_lines splitlines_join_lines)
qed

section \<open>The file system and the pipeline: auxiliary facts\<close>

lemma isfile_delete: "isfile (AList.delete k fs) p \<longleftrightarrow> p \<noteq> k \<and> isfile fs p"
  by (simp add: isfile_def delete_conv')

lemma map_of_remove_if_file:
  "map_of (remove_if_file d n fs) p =
     (if p = path_join d n \<and> isfile fs p then None else map_of fs p)"
  by (auto simp: remove_if_file_def Let_def delete_conv')

lemma isfile_remove_if_file:
  "isfile (remove_if_file d n fs) p \<longleftrightarrow> p \<noteq> path_join d n \<and> isfile fs p"
  by (auto simp: isfile_def map_of_remove_if_file)

lemma map_of_fold_remove:
  "map_of (fold (remove_if_file d) ns fs) p =
     (if isfile fs p \<and> p \<in> path_join d ` set ns then None else map_of fs p)"
proof (induction ns arbitrary: fs)
  case Nil
  then show ?case by simp
next
  case (Cons n ns)
  show ?case
    by (simp add: Cons.IH isfile_remove_if_file map_of_remove_if_file) (auto simp: isfile_def)
qed

lemma map_of_clear_files:
  "map_of (clear_files d fs) p =
     (if isfile fs p \<and> p \<in> path_join d ` set (listdir fs d) then None else map_of fs p)"
  by (simp add: clear_files_def map_of_fold_remove)

lemma child_nameD:
  "child_name d p = Some n \<Longrightarrow> p = path_join d n \<and> n \<noteq> [] \<and> 47 \<notin> set n"
  by (auto simp: child_name_def Let_def split: if_splits)

lemma path_join_plain:
  "n \<noteq> [] \<Longrightarrow> 47 \<notin> set n \<Longrightarrow>
   path_join d n = (if d = [] \<or> last d = 47 then d @ n else d @ 47 # n)"
  by (cases n) (auto simp: path_join_def)

lemma child_name_path_join:
  "n \<noteq> [] \<Longrightarrow> 47 \<notin> set n \<Longrightarrow> child_name d (path_join d n) = Some n"
  by (simp add: child_name_def Let_def path_join_plain)

lemma set_listdir:
  "set (listdir fs d) = {n. \<exists>p. map_of fs p \<noteq> None \<and> child_name d p = Some n}"
  by (auto simp: listdir_def map_filter_def map_of_eq_None_iff image_iff) force+

lemma listdir_names:
  "n \<in> set (listdir fs d) \<Longrightarrow> n \<noteq> [] \<and> 47 \<notin> set n \<and> map_of fs (path_join d n) \<noteq> None"
  by (auto simp: set_listdir dest: child_nameD)

lemma listdir_delete_other:
  "child_name d' k = None \<Longrightarrow> listdir (AList.delete k fs) d' = listdir fs d'"
proof -
  assume a: "child_name d' k = None"
  have "List.map_filter (child_name d') (map fst (AList.delete k fs)) =
        List.map_filter (child_name d') (map fst fs)"
    by (induction fs) (auto simp: List.map_filter_simps a split: option.splits)
  then show ?thesis by (simp add: listdir_def)
qed

lemma listdir_fold_other:
  "\<forall>n. child_name d' (path_join d n) = None \<Longrightarrow>
   listdir (fold (remove_if_file d) ns fs) d' = listdir fs d'"
  by (induction ns arbitrary: fs) (simp_all add: remove_if_file_def Let_def listdir_delete_other)

lemma roots:
  "BUILD_DIR = [46,47,98,117,105,108,100]"
  "SOLUTIONS_DIR = [46,47,115,111,108,117,116,105,111,110,115]"
  "TRACE_DIR = [46,47,116,114,97,99,101,115]"
  by (simp_all add: BUILD_DIR_def SOLUTIONS_DIR_def TRACE_DIR_def ascii_def)

lemma child_solutions_build: "child_name SOLUTIONS_DIR (path_join BUILD_DIR n) = None"
proof (cases "child_name SOLUTIONS_DIR (path_join BUILD_DIR n)")
  case None
  then show ?thesis .
next
  case (Some m)
  then have "path_join BUILD_DIR n = path_join SOLUTIONS_DIR m" "m \<noteq> []" "47 \<notin> set m"
    by (auto dest: child_nameD)
  then show ?thesis
    by (cases n) (auto simp: roots path_join_plain path_join_def split: if_splits)
qed


lemma world_simps [simp]:
  "disk (print m w) = disk w" "spawned (print m w) = spawned w"
  "console (print m w) = console w @ [m]"
  "disk (spawn a w) = disk w" "spawned (spawn a w) = spawned w @ [a]"
  "console (spawn a w) = console w"
  "final (raise e w) = w" "final (Inr w) = w" "final (Inl (e, w)) = w"
  by (simp_all add: print_def spawn_def final_def raise_def)

lemma seq_simps [simp]:
  "seq (Inr w) f = f w" "seq (Inl x) f = Inl x" "seq (raise e w) f = raise e w"
  by (simp_all add: seq_def raise_def)

lemma isdir_clear_files [simp]: "isdir (clear_files d fs) p \<longleftrightarrow> isdir fs p"
  by (auto simp: isdir_def map_of_clear_files isfile_def)

lemma clear_files_only_removes:
  "map_of (clear_files d fs) p = None \<or> map_of (clear_files d fs) p = map_of fs p"
  by (simp add: map_of_clear_files)

lemma solution_files_clear_build [simp]:
  "solution_files (clear_files BUILD_DIR fs) = solution_files fs"
  unfolding solution_files_def clear_files_def
  by (simp add: listdir_fold_other child_solutions_build)

lemma path_join_solutions_build:
  "n \<noteq> [] \<Longrightarrow> 47 \<notin> set n \<Longrightarrow> path_join SOLUTIONS_DIR n \<noteq> path_join BUILD_DIR m"
  using child_solutions_build [of m] child_name_path_join [of n SOLUTIONS_DIR]
  by (metis option.distinct(1))

lemma solution_file_clear_build:
  "n \<in> set (solution_files fs) \<Longrightarrow>
   map_of (clear_files BUILD_DIR fs) (path_join SOLUTIONS_DIR n) = map_of fs (path_join SOLUTIONS_DIR n)"
  by (auto simp: map_of_clear_files solution_files_def dest!: listdir_names
      dest: path_join_solutions_build)

lemma clear_folder_cases:
  "clear_folder d w = Inr (w\<lparr>disk := clear_files d (disk w)\<rparr>) \<and> isdir (disk w) d
   \<or> clear_folder d w = Inr w \<and> \<not> path_exists (disk w) d
   \<or> clear_folder d w = raise (OSError d) w"
  by (auto simp: clear_folder_def)

lemma write_text_cases:
  "write_text d n c w = Inr (w\<lparr>disk := AList.update (path_join d n) (File c) (disk w)\<rparr>)
     \<and> isdir (disk w) d \<and> \<not> isdir (disk w) (path_join d n)
   \<or> write_text d n c w = raise (OSError (path_join d n)) w"
  by (auto simp: write_text_def Let_def)

lemma body_config_error_general:
  assumes "length (solution_files (disk w)) \<noteq> 1"
  shows "spawned (final (test_subject_body orc level exercise subject_dir w)) = spawned w \<and>
         (\<forall>p. map_of (disk (final (test_subject_body orc level exercise subject_dir w))) p = None \<or>
              map_of (disk (final (test_subject_body orc level exercise subject_dir w))) p
                = map_of (disk w) p)"
  using assms clear_folder_cases [of BUILD_DIR w]
  unfolding test_subject_body_def
  by (auto simp: map_of_clear_files)

lemma run_and_check_shown:
  "run_and_check orc exe_file expected_output_file subject w =
     (let w4 = w\<lparr>console := console w @ program_output orc, spawned := spawned w @ [[exe_file]]\<rparr>
      in case expected_text (disk w) expected_output_file of
           None \<Rightarrow> Inr w4
         | Some content \<Rightarrow>
             if normalize_output (strip (stdout (candidate orc))) = normalize_output (strip content)
             then Inr (print OutputMatches w4)
             else seq (write_text TRACE_DIR (subject @ ascii ''_trace_'' @ now orc @ ascii ''.txt'')
                        (mismatch_trace (normalize_output (strip content))
                           (normalize_output (strip (stdout (candidate orc)))))
                        (w4\<lparr>console := console w4 @
                             [OutputDoesNotMatch, ExpectedHeader,
                              Text (join_lines (normalize_output (strip content))), GotHeader,
                              Text (join_lines (normalize_output (strip (stdout (candidate orc)))))]\<rparr>))
                    (\<lambda>w10. Inr (print (MismatchTraceSaved
                        (mismatch_trace_file subject (now orc))) w10)))"
  by (simp add: run_and_check_def Let_def expected_text_def program_output_def print_def
      spawn_def mismatch_trace_file_def split: option.splits node.splits)

lemma verdict_of_program_output [simp]:
  "verdict_of (program_output orc @ ms) = verdict_of ms"
  by (simp add: verdict_of_def program_output_def)

lemma verdict_of_program_output_only [simp]:
  "verdict_of (program_output orc) = None"
  by (simp add: verdict_of_def program_output_def)

lemma console_final_write_text [simp]:
  "console (final (seq (write_text d n c w) (\<lambda>w'. Inr (print m w')))) =
     (if isdir (disk w) d \<and> \<not> isdir (disk w) (path_join d n) then console w @ [m] else console w)"
  by (simp add: write_text_def Let_def)

lemma verdict_printed:
  "verdict_of (printed_by w (run_and_check orc exe_file expected_output_file subject w)) =
     (case expected_text (disk w) expected_output_file of
        None \<Rightarrow> None
      | Some content \<Rightarrow>
          if normalize_output (strip (stdout (candidate orc))) = normalize_output (strip content)
          then Some Match else Some Mismatch)"
  by (simp add: run_and_check_shown Let_def printed_by_def verdict_of_def [of "[OutputMatches]"]
      verdict_of_def [of "_ # _"] split: option.splits)


lemma compiler_command_not_single [simp]: "compiler_command name \<noteq> [x]"
  by (simp add: compiler_command_def Let_def)

lemma isdir_imp_exists: "isdir fs d \<Longrightarrow> path_exists fs d"
  by (simp add: isdir_def path_exists_def)

lemma isdir_update [simp]:
  "isdir (AList.update k v fs) p \<longleftrightarrow> (if p = k then v = Dir else isdir fs p)"
  by (simp add: isdir_def update_conv')

lemma clear_folder_dir:
  "isdir (disk w) d \<Longrightarrow> clear_folder d w = Inr (w\<lparr>disk := clear_files d (disk w)\<rparr>)"
  by (simp add: clear_folder_def isdir_imp_exists)

lemma test_subject_v6_unfold:
  assumes "isdir (disk w) (path_join TASKS_DIR level)" "exercises_of (disk w) level \<noteq> []"
  shows "test_subject_v6 orc level w =
     test_subject_body orc level (random_choice (pick orc) (exercises_of (disk w) level))
       (path_join (path_join TASKS_DIR level) (random_choice (pick orc) (exercises_of (disk w) level)))
       (w\<lparr>console := console w @
            [WorkingOn level (random_choice (pick orc) (exercises_of (disk w) level))]\<rparr>)"
  using assms by (simp add: test_subject_v6_def Let_def print_def)

lemma test_subject_v1_unfold:
  assumes "isdir (disk w) (path_join TASKS_DIR level)" "exercises_of (disk w) level \<noteq> []"
  shows "test_subject_v1 orc level w =
     test_subject_body orc level (random_choice (pick orc) (exercises_of (disk w) level))
       (path_join (path_join TASKS_DIR level) (random_choice (pick orc) (exercises_of (disk w) level)))
       (w\<lparr>console := console w @
            Testing level (random_choice (pick orc) (exercises_of (disk w) level)) #
            description_v1 (disk w) level (random_choice (pick orc) (exercises_of (disk w) level))\<rparr>)"
  using assms
  by (simp add: test_subject_v1_def Let_def print_def description_v1_def
      split: option.splits node.splits)

lemma body_config_error_exact:
  assumes "isdir (disk w) BUILD_DIR" "isdir (disk w) SOLUTIONS_DIR"
    "length (solution_files (disk w)) \<noteq> 1"
  shows "test_subject_body orc level exercise subject_dir w =
     Inr (w\<lparr>disk := clear_files BUILD_DIR (disk w), console := console w @ [ExactlyOneSolution]\<rparr>)"
  using assms
  by (simp add: test_subject_body_def clear_folder_dir print_def)

lemma body_failed_exact:
  assumes "isdir (disk w) BUILD_DIR" "isdir (disk w) SOLUTIONS_DIR"
    "solution_files (disk w) = [name]"
    "map_of (disk w) (path_join SOLUTIONS_DIR name) = Some (File src)"
    "\<not> isdir (disk w) (path_join BUILD_DIR name)"
    "isdir (disk w) TRACE_DIR"
    "\<not> isdir (disk w) (compile_trace_file level exercise (now orc))"
    "returncode (toolchain orc) \<noteq> 0"
  shows "test_subject_body orc level exercise subject_dir w =
     Inr (w\<lparr>disk := AList.update (compile_trace_file level exercise (now orc))
                      (File (compile_trace (toolchain orc)))
                      (AList.update (path_join BUILD_DIR name) (File src)
                         (clear_files BUILD_DIR (disk w))),
            console := console w @
              [CompilationFailed, TraceSaved (compile_trace_file level exercise (now orc))],
            spawned := spawned w @ [compiler_command name]\<rparr>)"
proof -
  have name: "name \<in> set (solution_files (disk w))" using assms(3) by simp
  then have name_ok: "name \<noteq> []" "47 \<notin> set name"
    by (auto simp: solution_files_def dest: listdir_names)
  have src: "map_of (clear_files BUILD_DIR (disk w)) (path_join SOLUTIONS_DIR name) = Some (File src)"
    using solution_file_clear_build [OF name] assms(4) by simp
  have dst_ne: "path_join BUILD_DIR name \<noteq> TRACE_DIR"
    using name_ok by (simp add: path_join_plain roots)
  have c1: "clear_folder BUILD_DIR w = Inr (w\<lparr>disk := clear_files BUILD_DIR (disk w)\<rparr>)"
    using assms(1) by (rule clear_folder_dir)
  show ?thesis
    using assms src dst_ne
    unfolding test_subject_body_def c1
    by (auto simp: shutil_copy_def write_text_def Let_def compile_trace_file_def
        print_def spawn_def)
qed

lemma spawned_final_write_text [simp]:
  "spawned (final (seq (write_text d n c w) (\<lambda>w'. Inr (print m w')))) = spawned w"
  by (simp add: write_text_def Let_def)

lemma clear_folder_quiet:
  obtains (raised) e where "clear_folder d w = raise e w"
  | (returned) w1 where "clear_folder d w = Inr w1" "console w1 = console w" "spawned w1 = spawned w"
  using clear_folder_cases [of d w] by fastforce

lemma compiler_command_not_single' [simp]: "[x] \<noteq> compiler_command name"
  by (simp add: compiler_command_def Let_def)

lemma shutil_copy_disj:
  "(\<exists>e. shutil_copy s d n w = raise e w) \<or>
   (\<exists>w1. shutil_copy s d n w = Inr w1 \<and> console w1 = console w \<and> spawned w1 = spawned w)"
  by (auto simp: shutil_copy_def write_text_def Let_def raise_def split: option.splits node.splits)

lemma shutil_copy_quiet:
  obtains (raised) e where "shutil_copy s d n w = raise e w"
  | (returned) w1 where "shutil_copy s d n w = Inr w1" "console w1 = console w" "spawned w1 = spawned w"
  using shutil_copy_disj [of s d n w] by blast

lemma body_failed_general:
  assumes "returncode (toolchain orc) \<noteq> 0"
  shows "[x] \<notin> set (spawned_by w (test_subject_body orc level exercise subject_dir w)) \<and>
         verdict_of (printed_by w (test_subject_body orc level exercise subject_dir w)) = None \<and>
         console (final (test_subject_body orc level exercise subject_dir w)) =
           console w @ printed_by w (test_subject_body orc level exercise subject_dir w) \<and>
         spawned (final (test_subject_body orc level exercise subject_dir w)) =
           spawned w @ spawned_by w (test_subject_body orc level exercise subject_dir w)"
proof (cases rule: clear_folder_quiet [of BUILD_DIR w])
  case (raised e)
  then show ?thesis
    by (simp add: test_subject_body_def spawned_by_def printed_by_def verdict_of_def)
next
  case (returned w1)
  show ?thesis
  proof (cases "isdir (disk w1) SOLUTIONS_DIR \<and> length (solution_files (disk w1)) = 1")
    case False
    with returned show ?thesis
      by (auto simp: test_subject_body_def spawned_by_def printed_by_def verdict_of_def)
  next
    case True
    show ?thesis
    proof (cases rule: shutil_copy_quiet [of SOLUTIONS_DIR BUILD_DIR "solution_files (disk w1) ! 0" w1])
      case (raised e)
      with True returned show ?thesis
        by (simp add: test_subject_body_def spawned_by_def printed_by_def verdict_of_def)
    next
      case copied: (returned w2)
      with True returned assms show ?thesis
        by (simp add: test_subject_body_def spawned_by_def printed_by_def verdict_of_def Let_def)
    qed
  qed
qed


lemma verdict_of_append:
  "verdict_of (a @ b) = None \<longleftrightarrow> verdict_of a = None \<and> verdict_of b = None"
  by (auto simp: verdict_of_def)

lemma wrapper_failed:
  assumes r: "r = test_subject_body orc level exercise subject_dir w'"
    and w': "console w' = console w @ pre" "spawned w' = spawned w" "verdict_of pre = None"
    and rc: "returncode (toolchain orc) \<noteq> 0"
  shows "[x] \<notin> set (spawned_by w r) \<and> verdict_of (printed_by w r) = None"
proof -
  from body_failed_general [OF rc, of x w' level exercise subject_dir]
  have b: "[x] \<notin> set (spawned_by w' r)" "verdict_of (printed_by w' r) = None"
    "console (final r) = console w' @ printed_by w' r"
    "spawned (final r) = spawned w' @ spawned_by w' r"
    unfolding r by blast+
  have "console (final r) = console w @ (pre @ printed_by w' r)"
    using b(3) w'(1) by simp
  then have "printed_by w r = pre @ printed_by w' r"
    unfolding printed_by_def [of w] by (metis append_eq_conv_conj)
  moreover have "spawned_by w r = spawned_by w' r"
    using w'(2) by (simp add: spawned_by_def)
  ultimately show ?thesis using b w' by (simp add: verdict_of_append)
qed

lemma verdict_of_description [simp]: "verdict_of (Testing l e # description_v1 fs l e) = None"
  by (simp add: verdict_of_def description_v1_def split: option.splits node.splits)

lemma failed_general_v6:
  assumes "returncode (toolchain orc) \<noteq> 0"
  shows "[x] \<notin> set (spawned_by w (test_subject_v6 orc level w)) \<and>
         verdict_of (printed_by w (test_subject_v6 orc level w)) = None"
proof (cases "isdir (disk w) (path_join TASKS_DIR level) \<and> exercises_of (disk w) level \<noteq> []")
  case True
  then show ?thesis
    using wrapper_failed [OF test_subject_v6_unfold [of w level orc], of w _ x] assms
    by (simp add: verdict_of_def)
next
  case False
  then show ?thesis
    by (auto simp: test_subject_v6_def Let_def printed_by_def spawned_by_def verdict_of_def)
qed

lemma failed_general_v1:
  assumes "returncode (toolchain orc) \<noteq> 0"
  shows "[x] \<notin> set (spawned_by w (test_subject_v1 orc level w)) \<and>
         verdict_of (printed_by w (test_subject_v1 orc level w)) = None"
proof (cases "isdir (disk w) (path_join TASKS_DIR level) \<and> exercises_of (disk w) level \<noteq> []")
  case True
  then show ?thesis
    using wrapper_failed [OF test_subject_v1_unfold [of w level orc], of w _ x] assms
    by simp
next
  case False
  then show ?thesis
    by (auto simp: test_subject_v1_def Let_def printed_by_def spawned_by_def verdict_of_def)
qed

lemma config_general_v6:
  assumes "length (solution_files (disk w)) \<noteq> 1"
  shows "spawned (final (test_subject_v6 orc level w)) = spawned w \<and>
         (\<forall>p. map_of (disk (final (test_subject_v6 orc level w))) p = None \<or>
              map_of (disk (final (test_subject_v6 orc level w))) p = map_of (disk w) p)"
proof (cases "isdir (disk w) (path_join TASKS_DIR level) \<and> exercises_of (disk w) level \<noteq> []")
  case True
  then show ?thesis
    using body_config_error_general [of "w\<lparr>console := console w @ [WorkingOn level (random_choice (pick orc) (exercises_of (disk w) level))]\<rparr>" orc level] assms
    by (simp add: test_subject_v6_unfold)
next
  case False
  then show ?thesis
    by (auto simp: test_subject_v6_def Let_def)
qed

lemma config_general_v1:
  assumes "length (solution_files (disk w)) \<noteq> 1"
  shows "spawned (final (test_subject_v1 orc level w)) = spawned w \<and>
         (\<forall>p. map_of (disk (final (test_subject_v1 orc level w))) p = None \<or>
              map_of (disk (final (test_subject_v1 orc level w))) p = map_of (disk w) p)"
proof (cases "isdir (disk w) (path_join TASKS_DIR level) \<and> exercises_of (disk w) level \<noteq> []")
  case True
  then show ?thesis
    using body_config_error_general [of "w\<lparr>console := console w @ Testing level (random_choice (pick orc) (exercises_of (disk w) level)) # description_v1 (disk w) level (random_choice (pick orc) (exercises_of (disk w) level))\<rparr>" orc level] assms
    by (simp add: test_subject_v1_unfold)
next
  case False
  then show ?thesis
    by (auto simp: test_subject_v1_def Let_def)
qed

lemma body_compiled:
  assumes "isdir (disk w) BUILD_DIR" "isdir (disk w) SOLUTIONS_DIR"
    "solution_files (disk w) = [name]"
    "map_of (disk w) (path_join SOLUTIONS_DIR name) = Some (File src)"
    "\<not> isdir (disk w) (path_join BUILD_DIR name)"
    "returncode (toolchain orc) = 0"
  shows "test_subject_body orc level exercise subject_dir w =
     run_and_check orc (path_join BUILD_DIR (ascii ''program.out''))
       (path_join (path_join subject_dir (ascii ''output'')) (ascii ''output.txt''))
       (level @ ascii ''_'' @ exercise)
       (w\<lparr>disk := AList.update (path_join BUILD_DIR (ascii ''program.out'')) (File (artifact orc))
                      (AList.update (path_join BUILD_DIR name) (File src)
                         (clear_files BUILD_DIR (disk w))),
            console := console w @ [CompilationSuccessful],
            spawned := spawned w @ [compiler_command name]\<rparr>)"
proof -
  have name: "name \<in> set (solution_files (disk w))" using assms(3) by simp
  have src: "map_of (clear_files BUILD_DIR (disk w)) (path_join SOLUTIONS_DIR name) = Some (File src)"
    using solution_file_clear_build [OF name] assms(4) by simp
  have c1: "clear_folder BUILD_DIR w = Inr (w\<lparr>disk := clear_files BUILD_DIR (disk w)\<rparr>)"
    using assms(1) by (rule clear_folder_dir)
  show ?thesis
    using assms src
    unfolding test_subject_body_def c1
    apply (simp add: shutil_copy_def write_text_def Let_def print_def spawn_def)
    apply (rule arg_cong [where f = "run_and_check orc _ _ _"])
    apply simp
    done
qed

lemma isfile_update:
  "isfile (AList.update k v fs) p \<longleftrightarrow> (if p = k then v \<noteq> Dir else isfile fs p)"
  by (cases v) (simp_all add: isfile_def update_conv')

lemma isfile_clear_files: "isfile (clear_files d fs) p \<Longrightarrow> isfile fs p"
  by (simp add: isfile_def map_of_clear_files split: if_splits)

lemma set_listdir_clear_files:
  "set (listdir (clear_files d fs) d) =
     {n \<in> set (listdir fs d). \<not> isfile fs (path_join d n)}"
proof -
  have "n \<in> set (listdir (clear_files d fs) d) \<longleftrightarrow>
        n \<in> set (listdir fs d) \<and> \<not> isfile fs (path_join d n)" for n
  proof
    assume "n \<in> set (listdir (clear_files d fs) d)"
    then obtain p where p: "map_of (clear_files d fs) p \<noteq> None" "child_name d p = Some n"
      by (auto simp: set_listdir)
    then have pn: "p = path_join d n" by (auto dest: child_nameD)
    from p(1) have ex: "map_of fs p \<noteq> None"
      by (auto simp: map_of_clear_files split: if_splits)
    with p(2) have n: "n \<in> set (listdir fs d)" by (auto simp: set_listdir)
    with p(1) pn have "\<not> isfile fs (path_join d n)"
      by (auto simp: map_of_clear_files split: if_splits)
    with n show "n \<in> set (listdir fs d) \<and> \<not> isfile fs (path_join d n)" by simp
  next
    assume a: "n \<in> set (listdir fs d) \<and> \<not> isfile fs (path_join d n)"
    then have "map_of fs (path_join d n) \<noteq> None" "child_name d (path_join d n) = Some n"
      by (auto dest: listdir_names simp: child_name_path_join)
    with a show "n \<in> set (listdir (clear_files d fs) d)"
      by (auto simp: set_listdir map_of_clear_files)
  qed
  then show ?thesis by auto
qed

lemma isfile_clear_files_child:
  "n \<in> set (listdir (clear_files d fs) d) \<Longrightarrow> \<not> isfile (clear_files d fs) (path_join d n)"
  by (auto simp: set_listdir_clear_files dest: isfile_clear_files)

section \<open>The command loops: auxiliary facts\<close>

lemma isfile_not_dir: "\<not> isfile fs p \<longleftrightarrow> isdir fs p \<or> \<not> path_exists fs p"
  by (auto simp: isfile_def isdir_def path_exists_def split: option.splits node.splits)

lemma clear_folder_cleared:
  "\<not> isfile (disk w) d \<Longrightarrow> clear_folder d w = Inr (w\<lparr>disk := cleared d (disk w)\<rparr>)"
  by (auto simp: isfile_not_dir clear_folder_def cleared_def isdir_imp_exists)

lemma isfile_cleared: "isfile (cleared d fs) p \<Longrightarrow> isfile fs p"
  by (auto simp: cleared_def dest: isfile_clear_files split: if_splits)

lemma clear_all_cleared:
  assumes "\<not> isfile (disk w) SOLUTIONS_DIR" "\<not> isfile (disk w) TRACE_DIR"
    "\<not> isfile (disk w) BUILD_DIR"
  shows "clear_all w =
    Inr (w\<lparr>disk := cleared BUILD_DIR (cleared TRACE_DIR (cleared SOLUTIONS_DIR (disk w)))\<rparr>)"
proof -
  have 1: "clear_folder SOLUTIONS_DIR w = Inr (w\<lparr>disk := cleared SOLUTIONS_DIR (disk w)\<rparr>)"
    using assms(1) by (rule clear_folder_cleared)
  have 2: "clear_folder TRACE_DIR (w\<lparr>disk := cleared SOLUTIONS_DIR (disk w)\<rparr>) =
      Inr (w\<lparr>disk := cleared TRACE_DIR (cleared SOLUTIONS_DIR (disk w))\<rparr>)"
    using assms(2) clear_folder_cleared [of "w\<lparr>disk := cleared SOLUTIONS_DIR (disk w)\<rparr>" TRACE_DIR]
    by (auto dest: isfile_cleared)
  have 3: "clear_folder BUILD_DIR (w\<lparr>disk := cleared TRACE_DIR (cleared SOLUTIONS_DIR (disk w))\<rparr>) =
      Inr (w\<lparr>disk := cleared BUILD_DIR (cleared TRACE_DIR (cleared SOLUTIONS_DIR (disk w)))\<rparr>)"
    using assms(3)
      clear_folder_cleared [of "w\<lparr>disk := cleared TRACE_DIR (cleared SOLUTIONS_DIR (disk w))\<rparr>" BUILD_DIR]
    by (auto dest: isfile_cleared)
  show ?thesis by (simp add: clear_all_def 1 2 3)
qed

lemma ascii_commands [simp]:
  "ascii ''NEW'' \<noteq> ascii ''EXIT''" "ascii ''newnew'' \<noteq> []" "ascii ''newnew'' \<noteq> ascii ''new''"
  by (simp_all add: ascii_def)

lemma iteration_v1_NEW:
  assumes "current_level s = Some d" "stdin s = line # rest" "status s = Running"
    "upper U (strip line) = ascii ''NEW''"
    "\<not> isfile (disk (the_world s)) SOLUTIONS_DIR" "\<not> isfile (disk (the_world s)) TRACE_DIR"
    "\<not> isfile (disk (the_world s)) BUILD_DIR"
  shows "iteration_v1 U orcs DIFFICULTIES s =
     s\<lparr>current_level := None, stdin := rest,
       the_world := (the_world s)
         \<lparr>disk := cleared BUILD_DIR (cleared TRACE_DIR (cleared SOLUTIONS_DIR (disk (the_world s)))),
          console := console (the_world s) @ [Switching]\<rparr>\<rparr>"
  using assms
  by (simp add: iteration_v1_def Let_def clear_all_cleared running_then_def absorb_def say_def
      print_def)

lemma iteration_v6_newnew:
  assumes "current_level s = Some l" "stdin s = line # rest"
    "lower U (strip line) = ascii ''newnew''"
  shows "iteration_v6 U orcs s =
     s\<lparr>current_level := None, stdin := rest,
       the_world := (the_world s)\<lparr>console := console (the_world s) @ [ActionPrompt, ChooseNewLevel]\<rparr>\<rparr>"
  using assms
  by (simp add: iteration_v6_def action_prompt_v6_def Let_def say_def print_def)






lemma strip_words:
  "strip (ascii ''newnew'') = ascii ''newnew''" "strip (ascii ''new'') = ascii ''new''"
  "strip (ascii ''foo'') = ascii ''foo''" "strip (ascii ''zzz'') = ascii ''zzz''"
  by (simp_all add: strip_def lstrip_def rstrip_def isspace_def ascii_def)

lemma ascii_unicode_words:
  "lower ascii_unicode (ascii ''newnew'') = ascii ''newnew''"
  "upper ascii_unicode (ascii ''new'') = ascii ''NEW''"
  "lower ascii_unicode (ascii ''foo'') = ascii ''foo''"
  "upper ascii_unicode (ascii ''foo'') = ascii ''FOO''"
  "lower ascii_unicode (ascii ''zzz'') = ascii ''zzz''"
  "upper ascii_unicode (ascii ''zzz'') = ascii ''ZZZ''"
  "\<not> isdigit ascii_unicode (ascii ''zzz'')"
  "lower ascii_unicode (ascii ''level1'') = ascii ''level1''"
  by (simp_all add: ascii_unicode_def ascii_def)

lemma no_file_after_clear_files:
  assumes "n \<noteq> []" "47 \<notin> set n"
  shows "\<not> isfile (clear_files d fs) (path_join d n)"
proof
  assume a: "isfile (clear_files d fs) (path_join d n)"
  then have f: "isfile fs (path_join d n)" by (rule isfile_clear_files)
  then have "map_of fs (path_join d n) \<noteq> None"
    by (auto simp: isfile_def split: option.splits)
  with assms have "n \<in> set (listdir fs d)"
    by (auto simp: set_listdir child_name_path_join)
  with f have "map_of (clear_files d fs) (path_join d n) = None"
    by (simp add: map_of_clear_files)
  with a show False by (simp add: isfile_def)
qed

lemma isdir_cleared [simp]: "isdir (cleared d fs) p \<longleftrightarrow> isdir fs p"
  by (simp add: cleared_def)

lemma no_file_after_cleared:
  assumes "isdir fs d" "n \<in> set (listdir fs' d)"
  shows "\<not> isfile (cleared d fs) (path_join d n)"
proof -
  from assms(2) have "n \<noteq> []" "47 \<notin> set n" by (auto dest: listdir_names)
  then show ?thesis
    using assms(1) by (simp add: cleared_def isdir_imp_exists no_file_after_clear_files)
qed

lemma no_file_after_clear_all:
  assumes "d = SOLUTIONS_DIR \<or> d = TRACE_DIR \<or> d = BUILD_DIR" "isdir fs d"
    "n \<in> set (listdir (cleared BUILD_DIR (cleared TRACE_DIR (cleared SOLUTIONS_DIR fs))) d)"
  shows "\<not> isfile (cleared BUILD_DIR (cleared TRACE_DIR (cleared SOLUTIONS_DIR fs))) (path_join d n)"
  using assms(1)
proof (elim disjE)
  assume "d = SOLUTIONS_DIR"
  with assms(2,3) show ?thesis
    using no_file_after_cleared [of fs SOLUTIONS_DIR n] by (blast dest: isfile_cleared)
next
  assume "d = TRACE_DIR"
  with assms(2,3) show ?thesis
    using no_file_after_cleared [of "cleared SOLUTIONS_DIR fs" TRACE_DIR n]
    by (auto dest: isfile_cleared)
next
  assume "d = BUILD_DIR"
  with assms(2,3) show ?thesis
    using no_file_after_cleared [of "cleared TRACE_DIR (cleared SOLUTIONS_DIR fs)" BUILD_DIR n]
    by auto
qed


section \<open>Claims about the Output Normalizer\<close>

text \<open>
  Claim C1.  For every input text, \<^verbatim>\<open>normalize_output\<close> returns the sequence obtained by
  splitting the text on line boundaries, stripping leading and trailing whitespace from
  each line, dropping the lines that become empty, and keeping the order of the others
  (\<open>spec_normalize\<close>; the code strips the whole text first, which changes nothing); and the
  text \<^verbatim>\<open>"a\n   \nb  \n"\<close> normalizes to \<^verbatim>\<open>["a", "b"]\<close>.
\<close>

theorem normalize_output_refines_spec:
  "normalize_output text = spec_normalize text \<and>
   normalize_output (ascii ''a'' @ [10] @ ascii ''   '' @ [10] @ ascii ''b  '' @ [10])
     = [ascii ''a'', ascii ''b'']"
proof
  show "normalize_output text = spec_normalize text"
    unfolding normalize_output_kept strip_def kept_splitlines_rstrip kept_splitlines_lstrip
    by (simp add: spec_normalize_def kept_def)
  show "normalize_output (ascii ''a'' @ [10] @ ascii ''   '' @ [10] @ ascii ''b  '' @ [10])
     = [ascii ''a'', ascii ''b'']"
    by (simp add: normalize_output_def ascii_def strip_def lstrip_def rstrip_def isspace_def
        is_linebreak_def splitlines.simps(2))
qed

theorem normalize_output_refines_spec_witness:
  "normalize_output [32, 120, 13, 10, 9, 8232, 121, 32] = spec_normalize [32, 120, 13, 10, 9, 8232, 121, 32] \<and>
   spec_normalize [32, 120, 13, 10, 9, 8232, 121, 32] = [[120], [121]]"
proof
  show "normalize_output [32, 120, 13, 10, 9, 8232, 121, 32] = spec_normalize [32, 120, 13, 10, 9, 8232, 121, 32]"
    using normalize_output_refines_spec [of "[32, 120, 13, 10, 9, 8232, 121, 32]"] by (rule conjunct1)
  show "spec_normalize [32, 120, 13, 10, 9, 8232, 121, 32] = [[120], [121]]"
    by (simp add: spec_normalize_def strip_def lstrip_def rstrip_def isspace_def
        is_linebreak_def splitlines.simps(2))
qed

text \<open>
  Claim C9.  Normalization is idempotent: joining the lines of \<open>normalize_output x\<close> with
  newlines and normalizing the joined text again gives \<open>normalize_output x\<close> back, the
  same lines in the same order.
\<close>

theorem normalize_output_idempotent:
  "normalize_output (join_lines (normalize_output x)) = normalize_output x"
  by (rule normalize_output_join_lines) (simp add: list_all_iff normalize_output_clean)

theorem normalize_output_idempotent_witness:
  "normalize_output (join_lines (normalize_output [32, 120, 13, 10, 9, 8232, 121, 32]))
     = normalize_output [32, 120, 13, 10, 9, 8232, 121, 32] \<and>
   normalize_output [32, 120, 13, 10, 9, 8232, 121, 32] = [[120], [121]]"
proof
  show "normalize_output (join_lines (normalize_output [32, 120, 13, 10, 9, 8232, 121, 32]))
     = normalize_output [32, 120, 13, 10, 9, 8232, 121, 32]"
    by (rule normalize_output_idempotent)
  show "normalize_output [32, 120, 13, 10, 9, 8232, 121, 32] = [[120], [121]]"
    by (simp add: normalize_output_def strip_def lstrip_def rstrip_def isspace_def
        is_linebreak_def splitlines.simps(2))
qed

section \<open>Claims about the comparison of outputs\<close>

text \<open>
  Claim C2.  When the expected-output file exists (and the trace directory is there to
  write into), \<^verbatim>\<open>run_and_check\<close> writes a mismatch trace exactly when the normalized
  actual output differs from the normalized expected output.  On equality it prints the
  Match verdict and leaves the file system as it is; on inequality it prints the Mismatch
  verdict with both normalized sequences and writes the trace
  \<^verbatim>\<open><subject>_trace_<timestamp>.txt\<close>, whose text is spelled out in the statement: a
  heading line, the line \<^verbatim>\<open>--- Expected ---\<close>, the expected sequence joined with newlines,
  the line \<^verbatim>\<open>--- Got ---\<close>, and the actual sequence joined with newlines.  The second part
  shows the subject that \<^verbatim>\<open>test_subject\<close> passes after a successful build:
  \<^verbatim>\<open><level>_<exercise>\<close>.
\<close>

theorem mismatch_trace_iff_outputs_differ:
  "(expected_text (disk w) expected_output_file = Some content \<and> isdir (disk w) TRACE_DIR \<and>
    \<not> isdir (disk w) (mismatch_trace_file subject (now orc)) \<longrightarrow>
    run_and_check orc exe_file expected_output_file subject w =
     (let norm_actual = normalize_output (strip (stdout (candidate orc)));
          norm_expected = normalize_output (strip content)
      in if norm_actual = norm_expected
         then Inr (w\<lparr>console := console w @ program_output orc @ [OutputMatches],
                     spawned := spawned w @ [[exe_file]]\<rparr>)
         else Inr (w\<lparr>disk := AList.update (mismatch_trace_file subject (now orc))
                               (File (10060 # ascii '' Output mismatch!'' @ [10] @
                                  ascii ''--- Expected ---'' @ [10] @
                                  join_lines norm_expected @ [10] @
                                  ascii ''--- Got ---'' @ [10] @
                                  join_lines norm_actual @ [10])) (disk w),
                     console := console w @ program_output orc @
                       [OutputDoesNotMatch, ExpectedHeader, Text (join_lines norm_expected),
                        GotHeader, Text (join_lines norm_actual),
                        MismatchTraceSaved (mismatch_trace_file subject (now orc))],
                     spawned := spawned w @ [[exe_file]]\<rparr>))) \<and>
   (isdir (disk w) BUILD_DIR \<and> isdir (disk w) SOLUTIONS_DIR \<and> solution_files (disk w) = [name] \<and>
    map_of (disk w) (path_join SOLUTIONS_DIR name) = Some (File src) \<and>
    \<not> isdir (disk w) (path_join BUILD_DIR name) \<and> returncode (toolchain orc) = 0 \<longrightarrow>
    test_subject_body orc level exercise subject_dir w =
      run_and_check orc (path_join BUILD_DIR (ascii ''program.out''))
        (path_join (path_join subject_dir (ascii ''output'')) (ascii ''output.txt''))
        (level @ ascii ''_'' @ exercise)
        (w\<lparr>disk := AList.update (path_join BUILD_DIR (ascii ''program.out'')) (File (artifact orc))
                       (AList.update (path_join BUILD_DIR name) (File src)
                          (clear_files BUILD_DIR (disk w))),
             console := console w @ [CompilationSuccessful],
             spawned := spawned w @ [compiler_command name]\<rparr>))"
proof (intro conjI impI)
  assume a: "expected_text (disk w) expected_output_file = Some content \<and> isdir (disk w) TRACE_DIR \<and>
    \<not> isdir (disk w) (mismatch_trace_file subject (now orc))"
  then show "run_and_check orc exe_file expected_output_file subject w =
     (let norm_actual = normalize_output (strip (stdout (candidate orc)));
          norm_expected = normalize_output (strip content)
      in if norm_actual = norm_expected
         then Inr (w\<lparr>console := console w @ program_output orc @ [OutputMatches],
                     spawned := spawned w @ [[exe_file]]\<rparr>)
         else Inr (w\<lparr>disk := AList.update (mismatch_trace_file subject (now orc))
                               (File (10060 # ascii '' Output mismatch!'' @ [10] @
                                  ascii ''--- Expected ---'' @ [10] @
                                  join_lines norm_expected @ [10] @
                                  ascii ''--- Got ---'' @ [10] @
                                  join_lines norm_actual @ [10])) (disk w),
                     console := console w @ program_output orc @
                       [OutputDoesNotMatch, ExpectedHeader, Text (join_lines norm_expected),
                        GotHeader, Text (join_lines norm_actual),
                        MismatchTraceSaved (mismatch_trace_file subject (now orc))],
                     spawned := spawned w @ [[exe_file]]\<rparr>))"
    by (simp add: run_and_check_shown Let_def write_text_def mismatch_trace_file_def print_def
        mismatch_trace_def)
next
  assume "isdir (disk w) BUILD_DIR \<and> isdir (disk w) SOLUTIONS_DIR \<and> solution_files (disk w) = [name] \<and>
    map_of (disk w) (path_join SOLUTIONS_DIR name) = Some (File src) \<and>
    \<not> isdir (disk w) (path_join BUILD_DIR name) \<and> returncode (toolchain orc) = 0"
  then show "test_subject_body orc level exercise subject_dir w =
      run_and_check orc (path_join BUILD_DIR (ascii ''program.out''))
        (path_join (path_join subject_dir (ascii ''output'')) (ascii ''output.txt''))
        (level @ ascii ''_'' @ exercise)
        (w\<lparr>disk := AList.update (path_join BUILD_DIR (ascii ''program.out'')) (File (artifact orc))
                       (AList.update (path_join BUILD_DIR name) (File src)
                          (clear_files BUILD_DIR (disk w))),
             console := console w @ [CompilationSuccessful],
             spawned := spawned w @ [compiler_command name]\<rparr>)"
    by (intro body_compiled) simp_all
qed

theorem mismatch_trace_iff_outputs_differ_witness:
  "(expected_text (disk example_world) (ascii ''./tasks/subjects/level1/1/output/output.txt'')
      = Some (ascii ''Hello'' @ [10] @ ascii ''World'') \<and>
    isdir (disk example_world) TRACE_DIR \<and>
    \<not> isdir (disk example_world)
       (mismatch_trace_file (ascii ''level1_1'')
          (now (example_env 0 (ascii ''World'' @ [10] @ ascii ''Hello''))))) \<and>
   normalize_output (strip (ascii ''World'' @ [10] @ ascii ''Hello''))
     \<noteq> normalize_output (strip (ascii ''Hello'' @ [10] @ ascii ''World'')) \<and>
   disk (final (run_and_check (example_env 0 (ascii ''World'' @ [10] @ ascii ''Hello''))
      (ascii ''./build/program.out'') (ascii ''./tasks/subjects/level1/1/output/output.txt'')
      (ascii ''level1_1'') example_world)) =
     AList.update
       (mismatch_trace_file (ascii ''level1_1'')
          (now (example_env 0 (ascii ''World'' @ [10] @ ascii ''Hello''))))
       (File (10060 # ascii '' Output mismatch!'' @ [10] @
              ascii ''--- Expected ---'' @ [10] @
              ascii ''Hello'' @ [10] @ ascii ''World'' @ [10] @
              ascii ''--- Got ---'' @ [10] @
              ascii ''World'' @ [10] @ ascii ''Hello'' @ [10]))
       (disk example_world)"
proof -
  let ?orc = "example_env 0 (ascii ''World'' @ [10] @ ascii ''Hello'')"
  have h: "expected_text (disk example_world) (ascii ''./tasks/subjects/level1/1/output/output.txt'')
      = Some (ascii ''Hello'' @ [10] @ ascii ''World'') \<and>
    isdir (disk example_world) TRACE_DIR \<and>
    \<not> isdir (disk example_world) (mismatch_trace_file (ascii ''level1_1'') (now ?orc))"
    by code_simp
  have out: "stdout (candidate ?orc) = ascii ''World'' @ [10] @ ascii ''Hello''"
    by (simp add: example_env_def)
  have n1: "normalize_output (strip (ascii ''World'' @ [10] @ ascii ''Hello''))
      = [ascii ''World'', ascii ''Hello'']"
    by (simp add: normalize_output_def ascii_def strip_def lstrip_def rstrip_def isspace_def
        is_linebreak_def splitlines.simps(2))
  have n2: "normalize_output (strip (ascii ''Hello'' @ [10] @ ascii ''World''))
      = [ascii ''Hello'', ascii ''World'']"
    by (simp add: normalize_output_def ascii_def strip_def lstrip_def rstrip_def isspace_def
        is_linebreak_def splitlines.simps(2))
  have ne: "[ascii ''World'', ascii ''Hello''] \<noteq> [ascii ''Hello'', ascii ''World'']"
    by (simp add: ascii_def)
  note t = mismatch_trace_iff_outputs_differ [THEN conjunct1, rule_format, OF h,
      of "ascii ''./build/program.out''"]
  have "disk (final (run_and_check ?orc (ascii ''./build/program.out'')
      (ascii ''./tasks/subjects/level1/1/output/output.txt'') (ascii ''level1_1'') example_world)) =
     AList.update (mismatch_trace_file (ascii ''level1_1'') (now ?orc))
       (File (10060 # ascii '' Output mismatch!'' @ [10] @
              ascii ''--- Expected ---'' @ [10] @
              ascii ''Hello'' @ [10] @ ascii ''World'' @ [10] @
              ascii ''--- Got ---'' @ [10] @
              ascii ''World'' @ [10] @ ascii ''Hello'' @ [10]))
       (disk example_world)"
    unfolding t out n1 n2 Let_def using ne by simp
  with h n1 n2 ne show ?thesis by simp
qed

text \<open>
  Claim C8.  When the exercise has no expected-output file, \<^verbatim>\<open>run_and_check\<close> prints the
  program's output only (its stripped standard output or the placeholder, and its standard
  error when there is one): no verdict, no change of the file system, so no trace.  The
  second part is the whole run after a successful build: the build artifacts apart, nothing
  is written.
\<close>

theorem no_expected_output_no_verdict:
  "(\<not> isfile (disk w) expected_output_file \<longrightarrow>
      run_and_check orc exe_file expected_output_file subject w =
        Inr (w\<lparr>console := console w @ program_output orc,
               spawned := spawned w @ [[exe_file]]\<rparr>) \<and>
      verdict_of (program_output orc) = None) \<and>
   (isdir (disk w) BUILD_DIR \<and> isdir (disk w) SOLUTIONS_DIR \<and> solution_files (disk w) = [name] \<and>
    map_of (disk w) (path_join SOLUTIONS_DIR name) = Some (File src) \<and>
    \<not> isdir (disk w) (path_join BUILD_DIR name) \<and> returncode (toolchain orc) = 0 \<and>
    \<not> isfile (disk w) (path_join (path_join subject_dir (ascii ''output'')) (ascii ''output.txt'')) \<and>
    path_join (path_join subject_dir (ascii ''output'')) (ascii ''output.txt'') \<noteq> path_join BUILD_DIR name \<and>
    path_join (path_join subject_dir (ascii ''output'')) (ascii ''output.txt'')
      \<noteq> path_join BUILD_DIR (ascii ''program.out'') \<longrightarrow>
    test_subject_body orc level exercise subject_dir w =
      Inr (w\<lparr>disk := AList.update (path_join BUILD_DIR (ascii ''program.out'')) (File (artifact orc))
                       (AList.update (path_join BUILD_DIR name) (File src)
                          (clear_files BUILD_DIR (disk w))),
             console := console w @ CompilationSuccessful # program_output orc,
             spawned := spawned w @
               [compiler_command name, [path_join BUILD_DIR (ascii ''program.out'')]]\<rparr>))"
proof (intro conjI impI)
  assume "\<not> isfile (disk w) expected_output_file"
  then show "run_and_check orc exe_file expected_output_file subject w =
        Inr (w\<lparr>console := console w @ program_output orc,
               spawned := spawned w @ [[exe_file]]\<rparr>)"
    by (auto simp: run_and_check_shown expected_text_def isfile_def
        split: option.splits node.splits)
next
  show "verdict_of (program_output orc) = None" by simp
next
  let ?f = "path_join (path_join subject_dir (ascii ''output'')) (ascii ''output.txt'')"
  let ?d = "AList.update (path_join BUILD_DIR (ascii ''program.out'')) (File (artifact orc))
              (AList.update (path_join BUILD_DIR name) (File src) (clear_files BUILD_DIR (disk w)))"
  assume a: "isdir (disk w) BUILD_DIR \<and> isdir (disk w) SOLUTIONS_DIR \<and> solution_files (disk w) = [name] \<and>
    map_of (disk w) (path_join SOLUTIONS_DIR name) = Some (File src) \<and>
    \<not> isdir (disk w) (path_join BUILD_DIR name) \<and> returncode (toolchain orc) = 0 \<and>
    \<not> isfile (disk w) ?f \<and> ?f \<noteq> path_join BUILD_DIR name \<and>
    ?f \<noteq> path_join BUILD_DIR (ascii ''program.out'')"
  then have "\<not> isfile ?d ?f"
    by (auto simp: isfile_update dest: isfile_clear_files)
  then have "expected_text ?d ?f = None"
    by (auto simp: expected_text_def isfile_def split: option.splits node.splits)
  moreover from a have "test_subject_body orc level exercise subject_dir w =
      run_and_check orc (path_join BUILD_DIR (ascii ''program.out'')) ?f
        (level @ ascii ''_'' @ exercise)
        (w\<lparr>disk := ?d, console := console w @ [CompilationSuccessful],
             spawned := spawned w @ [compiler_command name]\<rparr>)"
    by (intro body_compiled) simp_all
  ultimately show "test_subject_body orc level exercise subject_dir w =
      Inr (w\<lparr>disk := ?d, console := console w @ CompilationSuccessful # program_output orc,
             spawned := spawned w @
               [compiler_command name, [path_join BUILD_DIR (ascii ''program.out'')]]\<rparr>)"
    by (simp add: run_and_check_shown)
qed

theorem no_expected_output_no_verdict_witness:
  "\<not> isfile (disk example_world) (ascii ''./tasks/subjects/level1/2/output/output.txt'') \<and>
   run_and_check (example_env 0 (ascii ''hi'')) (ascii ''./build/program.out'')
      (ascii ''./tasks/subjects/level1/2/output/output.txt'') (ascii ''level1_2'') example_world =
     Inr (example_world\<lparr>console := console example_world @ program_output (example_env 0 (ascii ''hi'')),
            spawned := spawned example_world @ [[ascii ''./build/program.out'']]\<rparr>) \<and>
   verdict_of (program_output (example_env 0 (ascii ''hi''))) = None"
proof -
  have h: "\<not> isfile (disk example_world) (ascii ''./tasks/subjects/level1/2/output/output.txt'')"
    by code_simp
  from no_expected_output_no_verdict [THEN conjunct1, rule_format, OF h] h
  show ?thesis by blast
qed

text \<open>
  Claim C10.  The verdict that \<^verbatim>\<open>run_and_check\<close> prints (Match, Mismatch or none) is the
  same for any two runs whose programs wrote the same standard output and whose
  expected-output texts agree (both absent, or both present and equal), whatever the
  standard error and the exit code of the two programs, and whatever else differs.
\<close>

theorem verdict_depends_on_stdout_and_expected_only:
  assumes "stdout (candidate orc1) = stdout (candidate orc2)"
    and "expected_text (disk w1) file1 = expected_text (disk w2) file2"
  shows "verdict_of (printed_by w1 (run_and_check orc1 exe1 file1 subject1 w1)) =
         verdict_of (printed_by w2 (run_and_check orc2 exe2 file2 subject2 w2))"
  using assms by (simp add: verdict_printed split: option.splits)

theorem verdict_depends_on_stdout_and_expected_only_witness:
  "stdout (candidate (example_env 0 (ascii ''Hello'')))
     = stdout (candidate ((example_env 0 (ascii ''Hello''))
         \<lparr>candidate := \<lparr>returncode = 3, stdout = ascii ''Hello'', stderr = ascii ''boom''\<rparr>\<rparr>)) \<and>
   expected_text (disk example_world) (ascii ''./tasks/subjects/level1/1/output/output.txt'')
     = expected_text (disk example_world) (ascii ''./tasks/subjects/level1/1/output/output.txt'') \<and>
   verdict_of (printed_by example_world
      (run_and_check (example_env 0 (ascii ''Hello'')) (ascii ''./build/program.out'')
         (ascii ''./tasks/subjects/level1/1/output/output.txt'') (ascii ''level1_1'') example_world)) =
   verdict_of (printed_by example_world
      (run_and_check ((example_env 0 (ascii ''Hello''))
           \<lparr>candidate := \<lparr>returncode = 3, stdout = ascii ''Hello'', stderr = ascii ''boom''\<rparr>\<rparr>)
         (ascii ''./build/program.out'')
         (ascii ''./tasks/subjects/level1/1/output/output.txt'') (ascii ''level1_1'') example_world))"
proof -
  have h: "stdout (candidate (example_env 0 (ascii ''Hello'')))
     = stdout (candidate ((example_env 0 (ascii ''Hello''))
         \<lparr>candidate := \<lparr>returncode = 3, stdout = ascii ''Hello'', stderr = ascii ''boom''\<rparr>\<rparr>))"
    by (simp add: example_env_def)
  from verdict_depends_on_stdout_and_expected_only [OF h refl] h
  show ?thesis by blast
qed

section \<open>Claims about the pipeline\<close>

text \<open>
  Claim C3.  When the staging area holds no file or more than one file with a name ending
  in \<^verbatim>\<open>.c\<close> or \<^verbatim>\<open>.cpp\<close>, a run of \<^verbatim>\<open>test_subject\<close> (in either source file) starts no
  process at all, so no compiler, and creates or changes no file (it only removes the
  regular files of the build folder): no build artifact.  When the level and its exercises,
  the build folder and the staging area exist, the run returns after printing the
  configuration error.  Read backwards: a run that starts the compiler found exactly one
  such file.
\<close>

theorem config_error_aborts_before_compile:
  assumes "length (solution_files (disk w)) \<noteq> 1"
  shows "(spawned (final (test_subject_v6 orc level w)) = spawned w \<and>
          (\<forall>p. map_of (disk (final (test_subject_v6 orc level w))) p = None \<or>
               map_of (disk (final (test_subject_v6 orc level w))) p = map_of (disk w) p)) \<and>
         (spawned (final (test_subject_v1 orc level w)) = spawned w \<and>
          (\<forall>p. map_of (disk (final (test_subject_v1 orc level w))) p = None \<or>
               map_of (disk (final (test_subject_v1 orc level w))) p = map_of (disk w) p)) \<and>
         (isdir (disk w) (path_join TASKS_DIR level) \<and> exercises_of (disk w) level \<noteq> [] \<and>
          isdir (disk w) BUILD_DIR \<and> isdir (disk w) SOLUTIONS_DIR \<longrightarrow>
            test_subject_v6 orc level w =
              Inr (w\<lparr>disk := clear_files BUILD_DIR (disk w),
                     console := console w @
                       [WorkingOn level (random_choice (pick orc) (exercises_of (disk w) level)),
                        ExactlyOneSolution]\<rparr>) \<and>
            test_subject_v1 orc level w =
              Inr (w\<lparr>disk := clear_files BUILD_DIR (disk w),
                     console := console w @
                       Testing level (random_choice (pick orc) (exercises_of (disk w) level)) #
                       description_v1 (disk w) level
                         (random_choice (pick orc) (exercises_of (disk w) level)) @
                       [ExactlyOneSolution]\<rparr>))"
  using assms config_general_v6 [of w orc level] config_general_v1 [of w orc level]
  by (simp add: test_subject_v6_unfold test_subject_v1_unfold body_config_error_exact)

theorem config_error_aborts_before_compile_witness:
  "length (solution_files (disk (example_world\<lparr>disk := (ascii ''./solutions/b.cpp'', File []) # example_disk\<rparr>))) \<noteq> 1 \<and>
   (isdir (disk (example_world\<lparr>disk := (ascii ''./solutions/b.cpp'', File []) # example_disk\<rparr>)) (path_join TASKS_DIR (ascii ''level1'')) \<and>
    exercises_of (disk (example_world\<lparr>disk := (ascii ''./solutions/b.cpp'', File []) # example_disk\<rparr>)) (ascii ''level1'') \<noteq> [] \<and>
    isdir (disk (example_world\<lparr>disk := (ascii ''./solutions/b.cpp'', File []) # example_disk\<rparr>)) BUILD_DIR \<and> isdir (disk (example_world\<lparr>disk := (ascii ''./solutions/b.cpp'', File []) # example_disk\<rparr>)) SOLUTIONS_DIR) \<and>
   spawned (final (test_subject_v6 (example_env 0 []) (ascii ''level1'') (example_world\<lparr>disk := (ascii ''./solutions/b.cpp'', File []) # example_disk\<rparr>))) = spawned (example_world\<lparr>disk := (ascii ''./solutions/b.cpp'', File []) # example_disk\<rparr>) \<and>
   test_subject_v6 (example_env 0 []) (ascii ''level1'') (example_world\<lparr>disk := (ascii ''./solutions/b.cpp'', File []) # example_disk\<rparr>) =
     Inr ((example_world\<lparr>disk := (ascii ''./solutions/b.cpp'', File []) # example_disk\<rparr>)\<lparr>disk := clear_files BUILD_DIR (disk (example_world\<lparr>disk := (ascii ''./solutions/b.cpp'', File []) # example_disk\<rparr>)),
            console := console (example_world\<lparr>disk := (ascii ''./solutions/b.cpp'', File []) # example_disk\<rparr>) @
              [WorkingOn (ascii ''level1'')
                 (random_choice (pick (example_env 0 [])) (exercises_of (disk (example_world\<lparr>disk := (ascii ''./solutions/b.cpp'', File []) # example_disk\<rparr>)) (ascii ''level1''))),
               ExactlyOneSolution]\<rparr>)"
proof -
  have h0: "length (solution_files (disk (example_world\<lparr>disk := (ascii ''./solutions/b.cpp'', File []) # example_disk\<rparr>))) \<noteq> 1"
    by code_simp
  have h1: "isdir (disk (example_world\<lparr>disk := (ascii ''./solutions/b.cpp'', File []) # example_disk\<rparr>)) (path_join TASKS_DIR (ascii ''level1'')) \<and>
    exercises_of (disk (example_world\<lparr>disk := (ascii ''./solutions/b.cpp'', File []) # example_disk\<rparr>)) (ascii ''level1'') \<noteq> [] \<and>
    isdir (disk (example_world\<lparr>disk := (ascii ''./solutions/b.cpp'', File []) # example_disk\<rparr>)) BUILD_DIR \<and> isdir (disk (example_world\<lparr>disk := (ascii ''./solutions/b.cpp'', File []) # example_disk\<rparr>)) SOLUTIONS_DIR"
    by code_simp
  note t = config_error_aborts_before_compile [OF h0, of "example_env 0 []" "ascii ''level1''"]
  note t1 = t [THEN conjunct1, THEN conjunct1]
  note t3 = t [THEN conjunct2, THEN conjunct2, rule_format, OF h1, THEN conjunct1]
  from h0 h1 t1 t3 show ?thesis by blast
qed

text \<open>
  Claim C4.  When the compiler returns a non-zero code, a run of \<^verbatim>\<open>test_subject\<close> (in
  either source file) never starts the compiled program and prints no verdict; and when
  the run reaches the compiler and the trace directory is there to write into, it ends
  with the compiler as the only process started and with the trace
  \<^verbatim>\<open><level>_<exercise>_compile_<timestamp>.txt\<close> holding the compiler's captured standard
  output and standard error, each under its heading line as the statement spells it out.  Read backwards: the program runs and the outputs are compared
  only after the compiler returned zero.
\<close>

theorem compile_failure_traced_and_not_run:
  assumes "returncode (toolchain orc) \<noteq> 0"
  shows "([path_join BUILD_DIR (ascii ''program.out'')]
            \<notin> set (spawned_by w (test_subject_v6 orc level w)) \<and>
          verdict_of (printed_by w (test_subject_v6 orc level w)) = None) \<and>
         ([path_join BUILD_DIR (ascii ''program.out'')]
            \<notin> set (spawned_by w (test_subject_v1 orc level w)) \<and>
          verdict_of (printed_by w (test_subject_v1 orc level w)) = None) \<and>
         (isdir (disk w) (path_join TASKS_DIR level) \<and> exercises_of (disk w) level \<noteq> [] \<and>
          isdir (disk w) BUILD_DIR \<and> isdir (disk w) SOLUTIONS_DIR \<and>
          solution_files (disk w) = [name] \<and>
          map_of (disk w) (path_join SOLUTIONS_DIR name) = Some (File src) \<and>
          \<not> isdir (disk w) (path_join BUILD_DIR name) \<and> isdir (disk w) TRACE_DIR \<and>
          \<not> isdir (disk w)
             (compile_trace_file level (random_choice (pick orc) (exercises_of (disk w) level))
                (now orc)) \<longrightarrow>
            test_subject_v6 orc level w =
              Inr (w\<lparr>disk :=
                       AList.update
                         (compile_trace_file level
                            (random_choice (pick orc) (exercises_of (disk w) level)) (now orc))
                         (File (ascii ''--- Compiler stdout ---'' @ [10] @
                                  stdout (toolchain orc) @
                                  10 # ascii ''--- Compiler stderr ---'' @ [10] @
                                  stderr (toolchain orc)))
                         (AList.update (path_join BUILD_DIR name) (File src)
                            (clear_files BUILD_DIR (disk w))),
                     console := console w @
                       [WorkingOn level (random_choice (pick orc) (exercises_of (disk w) level)),
                        CompilationFailed,
                        TraceSaved (compile_trace_file level
                           (random_choice (pick orc) (exercises_of (disk w) level)) (now orc))],
                     spawned := spawned w @ [compiler_command name]\<rparr>) \<and>
            test_subject_v1 orc level w =
              Inr (w\<lparr>disk :=
                       AList.update
                         (compile_trace_file level
                            (random_choice (pick orc) (exercises_of (disk w) level)) (now orc))
                         (File (ascii ''--- Compiler stdout ---'' @ [10] @
                                  stdout (toolchain orc) @
                                  10 # ascii ''--- Compiler stderr ---'' @ [10] @
                                  stderr (toolchain orc)))
                         (AList.update (path_join BUILD_DIR name) (File src)
                            (clear_files BUILD_DIR (disk w))),
                     console := console w @
                       Testing level (random_choice (pick orc) (exercises_of (disk w) level)) #
                       description_v1 (disk w) level
                         (random_choice (pick orc) (exercises_of (disk w) level)) @
                       [CompilationFailed,
                        TraceSaved (compile_trace_file level
                           (random_choice (pick orc) (exercises_of (disk w) level)) (now orc))],
                     spawned := spawned w @ [compiler_command name]\<rparr>))"
proof -
  let ?ex = "random_choice (pick orc) (exercises_of (disk w) level)"
  have exact: "test_subject_body orc level ?ex sd w' =
      Inr (w'\<lparr>disk := AList.update (compile_trace_file level ?ex (now orc))
                         (File (compile_trace (toolchain orc)))
                         (AList.update (path_join BUILD_DIR name) (File src)
                            (clear_files BUILD_DIR (disk w'))),
              console := console w' @
                [CompilationFailed, TraceSaved (compile_trace_file level ?ex (now orc))],
              spawned := spawned w' @ [compiler_command name]\<rparr>)"
    if "disk w' = disk w" and "isdir (disk w) BUILD_DIR" "isdir (disk w) SOLUTIONS_DIR"
      "solution_files (disk w) = [name]"
      "map_of (disk w) (path_join SOLUTIONS_DIR name) = Some (File src)"
      "\<not> isdir (disk w) (path_join BUILD_DIR name)" "isdir (disk w) TRACE_DIR"
      "\<not> isdir (disk w) (compile_trace_file level ?ex (now orc))" for sd w'
    using that assms by (intro body_failed_exact) simp_all
  show ?thesis
    using failed_general_v6 [OF assms] failed_general_v1 [OF assms]
    by (auto simp: test_subject_v6_unfold test_subject_v1_unfold exact compile_trace_def)
qed

theorem compile_failure_traced_and_not_run_witness:
  "returncode (toolchain (example_env 1 [])) \<noteq> 0 \<and>
   stdout (toolchain (example_env 1 [])) = [] \<and>
   stderr (toolchain (example_env 1 [])) = ascii ''error'' \<and>
   (isdir (disk example_world) (path_join TASKS_DIR (ascii ''level1'')) \<and>
    exercises_of (disk example_world) (ascii ''level1'') \<noteq> [] \<and>
    isdir (disk example_world) BUILD_DIR \<and> isdir (disk example_world) SOLUTIONS_DIR \<and>
    solution_files (disk example_world) = [ascii ''a.c''] \<and>
    map_of (disk example_world) (path_join SOLUTIONS_DIR (ascii ''a.c''))
      = Some (File (ascii ''int main(){}'')) \<and>
    \<not> isdir (disk example_world) (path_join BUILD_DIR (ascii ''a.c'')) \<and>
    isdir (disk example_world) TRACE_DIR \<and>
    \<not> isdir (disk example_world)
       (compile_trace_file (ascii ''level1'')
          (random_choice (pick (example_env 1 []))
             (exercises_of (disk example_world) (ascii ''level1'')))
          (now (example_env 1 [])))) \<and>
   [path_join BUILD_DIR (ascii ''program.out'')]
     \<notin> set (spawned_by example_world
               (test_subject_v6 (example_env 1 []) (ascii ''level1'') example_world)) \<and>
   test_subject_v6 (example_env 1 []) (ascii ''level1'') example_world =
     Inr (example_world
           \<lparr>disk :=
              AList.update
                (compile_trace_file (ascii ''level1'')
                   (random_choice (pick (example_env 1 []))
                      (exercises_of (disk example_world) (ascii ''level1'')))
                   (now (example_env 1 [])))
                (File (ascii ''--- Compiler stdout ---'' @ [10] @
                       stdout (toolchain (example_env 1 [])) @
                       10 # ascii ''--- Compiler stderr ---'' @ [10] @
                       stderr (toolchain (example_env 1 []))))
                (AList.update (path_join BUILD_DIR (ascii ''a.c'')) (File (ascii ''int main(){}''))
                   (clear_files BUILD_DIR (disk example_world))),
            console := console example_world @
              [WorkingOn (ascii ''level1'')
                 (random_choice (pick (example_env 1 []))
                    (exercises_of (disk example_world) (ascii ''level1''))),
               CompilationFailed,
               TraceSaved (compile_trace_file (ascii ''level1'')
                  (random_choice (pick (example_env 1 []))
                     (exercises_of (disk example_world) (ascii ''level1'')))
                  (now (example_env 1 [])))],
            spawned := spawned example_world @ [compiler_command (ascii ''a.c'')]\<rparr>)"
proof -
  have h0: "returncode (toolchain (example_env 1 [])) \<noteq> 0"
    by (simp add: example_env_def)
  have h1: "isdir (disk example_world) (path_join TASKS_DIR (ascii ''level1'')) \<and>
    exercises_of (disk example_world) (ascii ''level1'') \<noteq> [] \<and>
    isdir (disk example_world) BUILD_DIR \<and> isdir (disk example_world) SOLUTIONS_DIR \<and>
    solution_files (disk example_world) = [ascii ''a.c''] \<and>
    map_of (disk example_world) (path_join SOLUTIONS_DIR (ascii ''a.c''))
      = Some (File (ascii ''int main(){}'')) \<and>
    \<not> isdir (disk example_world) (path_join BUILD_DIR (ascii ''a.c'')) \<and>
    isdir (disk example_world) TRACE_DIR \<and>
    \<not> isdir (disk example_world)
       (compile_trace_file (ascii ''level1'')
          (random_choice (pick (example_env 1 []))
             (exercises_of (disk example_world) (ascii ''level1'')))
          (now (example_env 1 [])))"
    by code_simp
  have oe: "stdout (toolchain (example_env 1 [])) = [] \<and>
    stderr (toolchain (example_env 1 [])) = ascii ''error''"
    by (simp add: example_env_def)
  note t = compile_failure_traced_and_not_run [OF h0, of example_world "ascii ''level1''"]
  note t1 = t [THEN conjunct1, THEN conjunct1]
  note t3 = t [THEN conjunct2, THEN conjunct2, rule_format, OF h1, THEN conjunct1]
  from h0 oe h1 t1 t3 show ?thesis by blast
qed

section \<open>Claims about the Workspace Manager\<close>

text \<open>
  Claim C7, as the code has it.  \<^verbatim>\<open>clear_folder\<close> on a path that does not exist does
  nothing and raises nothing.  On a directory it removes the regular files that are
  entries of the directory, and only those: the directory itself stays, its
  subdirectories stay (with everything below them), every other path keeps its node; the
  listing afterwards is the former listing without the regular files, so it holds no
  regular file, and it is empty when the directory held regular files only.
\<close>

theorem clear_folder_removes_regular_files:
  "(\<not> path_exists (disk w) d \<longrightarrow> clear_folder d w = Inr w) \<and>
   (isdir (disk w) d \<longrightarrow>
      clear_folder d w = Inr (w\<lparr>disk := clear_files d (disk w)\<rparr>) \<and>
      isdir (clear_files d (disk w)) d \<and>
      set (listdir (clear_files d (disk w)) d) =
        {n \<in> set (listdir (disk w) d). \<not> isfile (disk w) (path_join d n)} \<and>
      (\<forall>n \<in> set (listdir (clear_files d (disk w)) d).
          \<not> isfile (clear_files d (disk w)) (path_join d n)) \<and>
      (\<forall>p. isdir (disk w) p \<longrightarrow> isdir (clear_files d (disk w)) p) \<and>
      (\<forall>p. (\<forall>n \<in> set (listdir (disk w) d). p \<noteq> path_join d n) \<longrightarrow>
           map_of (clear_files d (disk w)) p = map_of (disk w) p) \<and>
      ((\<forall>n \<in> set (listdir (disk w) d). isfile (disk w) (path_join d n)) \<longrightarrow>
         listdir (clear_files d (disk w)) d = []))"
proof (intro conjI impI)
  assume "\<not> path_exists (disk w) d"
  then show "clear_folder d w = Inr w" by (simp add: clear_folder_def)
next
  assume "isdir (disk w) d"
  then show "clear_folder d w = Inr (w\<lparr>disk := clear_files d (disk w)\<rparr>)"
    by (rule clear_folder_dir)
next
  assume "isdir (disk w) d"
  then show "isdir (clear_files d (disk w)) d" by simp
next
  show "set (listdir (clear_files d (disk w)) d) =
        {n \<in> set (listdir (disk w) d). \<not> isfile (disk w) (path_join d n)}"
    by (rule set_listdir_clear_files)
next
  show "\<forall>n \<in> set (listdir (clear_files d (disk w)) d).
          \<not> isfile (clear_files d (disk w)) (path_join d n)"
    by (auto dest: isfile_clear_files_child)
next
  show "\<forall>p. isdir (disk w) p \<longrightarrow> isdir (clear_files d (disk w)) p" by simp
next
  show "\<forall>p. (\<forall>n \<in> set (listdir (disk w) d). p \<noteq> path_join d n) \<longrightarrow>
           map_of (clear_files d (disk w)) p = map_of (disk w) p"
    by (auto simp: map_of_clear_files)
next
  assume "\<forall>n \<in> set (listdir (disk w) d). isfile (disk w) (path_join d n)"
  then have "set (listdir (clear_files d (disk w)) d) = {}"
    by (auto simp: set_listdir_clear_files)
  then show "listdir (clear_files d (disk w)) d = []" by simp
qed

theorem clear_folder_removes_regular_files_witness:
  "\<not> path_exists (disk example_world) (ascii ''./nowhere'') \<and>
   clear_folder (ascii ''./nowhere'') example_world = Inr example_world \<and>
   isdir (disk example_world) BUILD_DIR \<and>
   clear_folder BUILD_DIR example_world =
     Inr (example_world\<lparr>disk := clear_files BUILD_DIR (disk example_world)\<rparr>) \<and>
   set (listdir (clear_files BUILD_DIR (disk example_world)) BUILD_DIR) =
     {n \<in> set (listdir (disk example_world) BUILD_DIR).
        \<not> isfile (disk example_world) (path_join BUILD_DIR n)}"
proof -
  have h0: "\<not> path_exists (disk example_world) (ascii ''./nowhere'')" by code_simp
  have h1: "isdir (disk example_world) BUILD_DIR" by code_simp
  note a = clear_folder_removes_regular_files [THEN conjunct1, rule_format, OF h0]
  note b = clear_folder_removes_regular_files [THEN conjunct2, rule_format, OF h1]
  from h0 h1 a b [THEN conjunct1] b [THEN conjunct2, THEN conjunct2, THEN conjunct1]
  show ?thesis by blast
qed

text \<open>
  The claim as the specification states it (the contents of the directory are deleted)
  fails on a directory that holds a subdirectory: after the reset of the build folder of
  the example workspace, which held the file \<^verbatim>\<open>old.o\<close> and the folder \<^verbatim>\<open>sub\<close>, the
  listing still shows \<^verbatim>\<open>sub\<close>.
\<close>

theorem clear_folder_keeps_subdirectories_counterexample:
  "isdir (disk example_world) BUILD_DIR \<and>
   isfile (disk example_world) (path_join BUILD_DIR (ascii ''old.o'')) \<and>
   listdir (disk (final (clear_folder BUILD_DIR example_world))) BUILD_DIR = [ascii ''sub''] \<and>
   isdir (disk (final (clear_folder BUILD_DIR example_world))) (path_join BUILD_DIR (ascii ''sub''))"
  by code_simp

section \<open>Claims about the Session Controller\<close>

text \<open>
  Claim C5, as the code has it.  In \<^verbatim>\<open>grademe_version1.py\<close> the change-level command
  (\<^verbatim>\<open>NEW\<close>, in any case) taken with a difficulty selected first clears the regular files
  of the solution-staging, trace and build directories (each of them a directory or
  absent) and then sets the difficulty to none; afterwards each of the three directories
  is still there and no entry of it is a regular file (the last part of the statement).  In \<^verbatim>\<open>grademe_version6.py\<close> the
  change-level command (\<^verbatim>\<open>newnew\<close>) only sets the level to none: it prints its message
  and touches no file.
\<close>

theorem change_level_clears_only_in_version1:
  "(current_level s = Some d \<and> stdin s = line # rest \<and> status s = Running \<and>
    upper U (strip line) = ascii ''NEW'' \<and>
    \<not> isfile (disk (the_world s)) SOLUTIONS_DIR \<and> \<not> isfile (disk (the_world s)) TRACE_DIR \<and>
    \<not> isfile (disk (the_world s)) BUILD_DIR \<longrightarrow>
    iteration_v1 U orcs DIFFICULTIES s =
      s\<lparr>current_level := None, stdin := rest,
        the_world := (the_world s)
          \<lparr>disk := cleared BUILD_DIR (cleared TRACE_DIR (cleared SOLUTIONS_DIR (disk (the_world s)))),
           console := console (the_world s) @ [Switching]\<rparr>\<rparr>) \<and>
   (current_level s = Some d \<and> stdin s = line # rest \<and>
    lower U (strip line) = ascii ''newnew'' \<longrightarrow>
    iteration_v6 U orcs s =
      s\<lparr>current_level := None, stdin := rest,
        the_world := (the_world s)
          \<lparr>console := console (the_world s) @ [ActionPrompt, ChooseNewLevel]\<rparr>\<rparr>) \<and>
   (\<forall>D n. (D = SOLUTIONS_DIR \<or> D = TRACE_DIR \<or> D = BUILD_DIR) \<and> isdir fs D \<and>
      n \<in> set (listdir (cleared BUILD_DIR (cleared TRACE_DIR (cleared SOLUTIONS_DIR fs))) D) \<longrightarrow>
      isdir (cleared BUILD_DIR (cleared TRACE_DIR (cleared SOLUTIONS_DIR fs))) D \<and>
      \<not> isfile (cleared BUILD_DIR (cleared TRACE_DIR (cleared SOLUTIONS_DIR fs))) (path_join D n))"
proof (intro conjI impI allI)
  assume "current_level s = Some d \<and> stdin s = line # rest \<and> status s = Running \<and>
    upper U (strip line) = ascii ''NEW'' \<and>
    \<not> isfile (disk (the_world s)) SOLUTIONS_DIR \<and> \<not> isfile (disk (the_world s)) TRACE_DIR \<and>
    \<not> isfile (disk (the_world s)) BUILD_DIR"
  then show "iteration_v1 U orcs DIFFICULTIES s =
      s\<lparr>current_level := None, stdin := rest,
        the_world := (the_world s)
          \<lparr>disk := cleared BUILD_DIR (cleared TRACE_DIR (cleared SOLUTIONS_DIR (disk (the_world s)))),
           console := console (the_world s) @ [Switching]\<rparr>\<rparr>"
    by (elim conjE) (rule iteration_v1_NEW)
next
  assume "current_level s = Some d \<and> stdin s = line # rest \<and>
    lower U (strip line) = ascii ''newnew''"
  then show "iteration_v6 U orcs s =
      s\<lparr>current_level := None, stdin := rest,
        the_world := (the_world s)
          \<lparr>console := console (the_world s) @ [ActionPrompt, ChooseNewLevel]\<rparr>\<rparr>"
    by (elim conjE) (rule iteration_v6_newnew)
next
  fix D n
  assume "(D = SOLUTIONS_DIR \<or> D = TRACE_DIR \<or> D = BUILD_DIR) \<and> isdir fs D \<and>
      n \<in> set (listdir (cleared BUILD_DIR (cleared TRACE_DIR (cleared SOLUTIONS_DIR fs))) D)"
  then show "isdir (cleared BUILD_DIR (cleared TRACE_DIR (cleared SOLUTIONS_DIR fs))) D"
    by simp
next
  fix D n
  assume "(D = SOLUTIONS_DIR \<or> D = TRACE_DIR \<or> D = BUILD_DIR) \<and> isdir fs D \<and>
      n \<in> set (listdir (cleared BUILD_DIR (cleared TRACE_DIR (cleared SOLUTIONS_DIR fs))) D)"
  then show "\<not> isfile (cleared BUILD_DIR (cleared TRACE_DIR (cleared SOLUTIONS_DIR fs))) (path_join D n)"
    by (elim conjE) (rule no_file_after_clear_all)
qed

theorem change_level_clears_only_in_version1_witness:
  "(upper ascii_unicode (strip (ascii ''new'')) = ascii ''NEW'' \<and>
    \<not> isfile (disk example_world) SOLUTIONS_DIR \<and> \<not> isfile (disk example_world) TRACE_DIR \<and>
    \<not> isfile (disk example_world) BUILD_DIR) \<and>
   iteration_v1 ascii_unicode (\<lambda>k. example_env 0 []) [ascii ''level1''] \<lparr>current_level = Some (ascii ''level1''), stdin = [ascii ''new''], runs = 0, status = Running, the_world = example_world\<rparr> =
      \<lparr>current_level = Some (ascii ''level1''), stdin = [ascii ''new''], runs = 0, status = Running, the_world = example_world\<rparr>\<lparr>current_level := None, stdin := [],
        the_world := (the_world \<lparr>current_level = Some (ascii ''level1''), stdin = [ascii ''new''], runs = 0, status = Running, the_world = example_world\<rparr>)
          \<lparr>disk := cleared BUILD_DIR (cleared TRACE_DIR (cleared SOLUTIONS_DIR (disk (the_world \<lparr>current_level = Some (ascii ''level1''), stdin = [ascii ''new''], runs = 0, status = Running, the_world = example_world\<rparr>)))),
           console := console (the_world \<lparr>current_level = Some (ascii ''level1''), stdin = [ascii ''new''], runs = 0, status = Running, the_world = example_world\<rparr>) @ [Switching]\<rparr>\<rparr> \<and>
   lower ascii_unicode (strip (ascii ''newnew'')) = ascii ''newnew'' \<and>
   iteration_v6 ascii_unicode (\<lambda>k. example_env 0 []) \<lparr>current_level = Some (ascii ''level1''), stdin = [ascii ''newnew''], runs = 0, status = Running, the_world = example_world\<rparr> =
      \<lparr>current_level = Some (ascii ''level1''), stdin = [ascii ''newnew''], runs = 0, status = Running, the_world = example_world\<rparr>\<lparr>current_level := None, stdin := [],
        the_world := (the_world \<lparr>current_level = Some (ascii ''level1''), stdin = [ascii ''newnew''], runs = 0, status = Running, the_world = example_world\<rparr>)
          \<lparr>console := console (the_world \<lparr>current_level = Some (ascii ''level1''), stdin = [ascii ''newnew''], runs = 0, status = Running, the_world = example_world\<rparr>) @ [ActionPrompt, ChooseNewLevel]\<rparr>\<rparr>"
proof -
  have u: "upper ascii_unicode (strip (ascii ''new'')) = ascii ''NEW''"
    by (simp add: strip_words ascii_unicode_words)
  have l: "lower ascii_unicode (strip (ascii ''newnew'')) = ascii ''newnew''"
    by (simp add: strip_words ascii_unicode_words)
  have f: "\<not> isfile (disk example_world) SOLUTIONS_DIR \<and> \<not> isfile (disk example_world) TRACE_DIR \<and>
    \<not> isfile (disk example_world) BUILD_DIR"
    by code_simp
  have h1: "current_level \<lparr>current_level = Some (ascii ''level1''), stdin = [ascii ''new''], runs = 0, status = Running, the_world = example_world\<rparr> = Some (ascii ''level1'') \<and> stdin \<lparr>current_level = Some (ascii ''level1''), stdin = [ascii ''new''], runs = 0, status = Running, the_world = example_world\<rparr> = ascii ''new'' # [] \<and>
    status \<lparr>current_level = Some (ascii ''level1''), stdin = [ascii ''new''], runs = 0, status = Running, the_world = example_world\<rparr> = Running \<and> upper ascii_unicode (strip (ascii ''new'')) = ascii ''NEW'' \<and>
    \<not> isfile (disk (the_world \<lparr>current_level = Some (ascii ''level1''), stdin = [ascii ''new''], runs = 0, status = Running, the_world = example_world\<rparr>)) SOLUTIONS_DIR \<and> \<not> isfile (disk (the_world \<lparr>current_level = Some (ascii ''level1''), stdin = [ascii ''new''], runs = 0, status = Running, the_world = example_world\<rparr>)) TRACE_DIR \<and>
    \<not> isfile (disk (the_world \<lparr>current_level = Some (ascii ''level1''), stdin = [ascii ''new''], runs = 0, status = Running, the_world = example_world\<rparr>)) BUILD_DIR"
    using u f by simp
  have h2: "current_level \<lparr>current_level = Some (ascii ''level1''), stdin = [ascii ''newnew''], runs = 0, status = Running, the_world = example_world\<rparr> = Some (ascii ''level1'') \<and> stdin \<lparr>current_level = Some (ascii ''level1''), stdin = [ascii ''newnew''], runs = 0, status = Running, the_world = example_world\<rparr> = ascii ''newnew'' # [] \<and>
    lower ascii_unicode (strip (ascii ''newnew'')) = ascii ''newnew''"
    using l by simp
  note a = change_level_clears_only_in_version1 [THEN conjunct1, rule_format, OF h1]
  note b = change_level_clears_only_in_version1 [THEN conjunct2, THEN conjunct1, rule_format, OF h2]
  from u f l a b show ?thesis by blast
qed

text \<open>
  The claim as the specification states it fails in \<^verbatim>\<open>grademe_version6.py\<close>: after
  \<^verbatim>\<open>newnew\<close> the level is none, and the file system is what it was, with the staged
  solution and the old build file still there.
\<close>

theorem change_level_version6_keeps_files_counterexample:
  "current_level (iteration_v6 ascii_unicode (\<lambda>k. example_env 0 [])
      \<lparr>current_level = Some (ascii ''level1''), stdin = [ascii ''newnew''], runs = 0,
       status = Running, the_world = example_world\<rparr>) = None \<and>
   disk (the_world (iteration_v6 ascii_unicode (\<lambda>k. example_env 0 [])
      \<lparr>current_level = Some (ascii ''level1''), stdin = [ascii ''newnew''], runs = 0,
       status = Running, the_world = example_world\<rparr>)) = disk example_world \<and>
   isfile (disk example_world) (ascii ''./solutions/a.c'') \<and>
   isfile (disk example_world) (ascii ''./build/old.o'')"
proof -
  have "isfile (disk example_world) (ascii ''./solutions/a.c'') \<and>
        isfile (disk example_world) (ascii ''./build/old.o'')"
    by code_simp
  then show ?thesis
    by (simp add: iteration_v6_newnew [where l = "ascii ''level1''" and line = "ascii ''newnew''"
          and rest = "[]"] strip_words ascii_unicode_words)
qed




end
